theory Spec2Isabelle
  imports Complex_Main "HOL-Library.Word"
begin

section \<open>Audio streaming externals: \<open>rtmpstreamer~\<close> and \<open>rtspstreamer~\<close>\<close>

text \<open>
  The two Pure Data externals stream host audio blocks through the FFmpeg libraries.
  The externals' own C code is embedded here function by function; the FFmpeg library
  and the Pd host are the environment. Every library call the code makes is recorded,
  in order, as an \<open>event\<close>; the result of each fallible call is supplied by an
  environment record, so that every early return of the C code is a branch of the
  model. Pointers that may be \<open>NULL\<close> are options.
\<close>

subsection \<open>Samples\<close>

text \<open>
  A \<open>t_sample\<close> is a C \<open>float\<close>: a finite number, modelled by the real number it
  denotes, one of the two infinities, or a NaN. The comparison \<open><\<close> of two floats is
  false as soon as one of them is a NaN.
\<close>

datatype sample = Fin real | PInf | MInf | NaN

fun fless :: "sample \<Rightarrow> sample \<Rightarrow> bool" where
  "fless (Fin a) (Fin b) = (a < b)"
| "fless (Fin a) PInf = True"
| "fless MInf (Fin b) = True"
| "fless MInf PInf = True"
| "fless s t = False"

datatype fault = Null_dereference | Out_of_bounds | Undefined_conversion

text \<open>
  The clamp of both perform functions: \<open>if (sample < -1.0f) sample = -1.0f;\<close>
  \<open>if (sample > 1.0f) sample = 1.0f;\<close>
\<close>

definition clamp_sample :: "sample \<Rightarrow> sample" where
  "clamp_sample s =
     (let sample = s;
          sample = (if fless sample (Fin (- 1)) then Fin (- 1) else sample);
          sample = (if fless (Fin 1) sample then Fin 1 else sample)
      in sample)"

text \<open>
  The product \<open>sample * 32767.0f\<close>. The product of a finite sample is rounded by the
  floating-point unit: the rounding of the exact product is the parameter \<open>rnd\<close>. (The
  code forms the product after the clamp, where it cannot overflow.) An infinity and a
  NaN stay what they are.
\<close>

fun scale_sample :: "(real \<Rightarrow> real) \<Rightarrow> sample \<Rightarrow> sample" where
  "scale_sample rnd (Fin v) = Fin (rnd (v * 32767))"
| "scale_sample rnd s = s"

text \<open>Conversion of a floating value to an integer discards the fractional part.\<close>

definition trunc :: "real \<Rightarrow> int" where
  "trunc y = (if 0 \<le> y then \<lfloor>y\<rfloor> else \<lceil>y\<rceil>)"

text \<open>
  The cast \<open>(int16_t)\<close> of a float: defined by C only for a finite value whose
  truncation is representable in 16 bits.
\<close>

fun int16_cast :: "sample \<Rightarrow> fault + 16 word" where
  "int16_cast (Fin y) =
     (if - 32768 \<le> trunc y \<and> trunc y \<le> 32767 then Inr (word_of_int (trunc y))
      else Inl Undefined_conversion)"
| "int16_cast s = Inl Undefined_conversion"

text \<open>The body of the sample loop of \<open>rtspstreamer_tilde_perform\<close>.\<close>

definition rtsp_convert :: "(real \<Rightarrow> real) \<Rightarrow> sample \<Rightarrow> fault + 16 word" where
  "rtsp_convert rnd s = int16_cast (scale_sample rnd (clamp_sample s))"

text \<open>The body of the sample loop of \<open>rtmpstreamer_tilde_perform\<close>.\<close>

definition rtmp_convert :: "sample \<Rightarrow> fault + sample" where
  "rtmp_convert s = Inr (clamp_sample s)"

subsection \<open>Library calls and diagnostics\<close>

datatype recv_result = Recv_packet | Recv_EAGAIN | Recv_EOF | Recv_error

text \<open>
  One constructor per library or host call. A \<open>bool\<close> tells whether the call
  succeeded. \<open>Avcodec_send_frame\<close> records the \<open>pts\<close> and \<open>nb_samples\<close> of the
  frame submitted, \<open>Av_interleaved_write_frame\<close> the \<open>stream_index\<close> of the packet.
\<close>

datatype event =
    Post string
  | Pd_error string
  | Avformat_network_init
  | Avformat_alloc_output_context2 bool
  | Avcodec_find_encoder bool
  | Avformat_new_stream bool
  | Avcodec_alloc_context3 bool
  | Av_channel_layout_copy bool
  | Avcodec_open2 bool
  | Avcodec_parameters_from_context bool
  | Avio_open bool
  | Av_dict_set
  | Avformat_write_header bool
  | Av_dict_free
  | Av_frame_alloc bool
  | Av_frame_get_buffer bool
  | Avcodec_send_frame "64 word" int bool
  | Avcodec_receive_packet recv_result
  | Av_interleaved_write_frame int bool
  | Av_packet_unref
  | Av_write_trailer
  | Avio_closep
  | Avformat_free_context
  | Avcodec_free_context
  | Av_frame_free
  | Av_channel_layout_uninit
  | Avformat_network_deinit

subsection \<open>The object structures\<close>

record avformat =
  nofile :: bool
  pb_open :: bool

record avstream =
  index :: int

record avcodec =
  frame_size :: int

record 'a avframe =
  data :: "'a list"
  nb_samples :: int
  frame_pts :: "64 word"

text \<open>
  The fields shared by \<open>t_rtmpstreamer_tilde\<close> and \<open>t_rtspstreamer_tilde\<close>; the
  type parameter is the sample format of the frame buffer.
\<close>

record 'a streamer =
  url :: "string option"
  fmt_ctx :: "avformat option"
  audio_st :: "avstream option"
  codec_ctx :: "avcodec option"
  frame :: "'a avframe option"
  pts :: "64 word"

record rtmpstreamer = "sample streamer" +
  streaming_active :: bool

type_synonym rtspstreamer = "16 word streamer"

subsection \<open>The frame assembler and the encode-dispatch loop\<close>

text \<open>
  The loop \<open>for (i = 0; i < n; i++) samples[i] = conv(in[i])\<close>. The block is the list
  of its \<open>n\<close> samples; the frame buffer is the list of its allocated slots, and a store
  past its end is the fault \<open>Out_of_bounds\<close>.
\<close>

fun write_samples ::
  "(sample \<Rightarrow> fault + 'a) \<Rightarrow> sample list \<Rightarrow> nat \<Rightarrow> 'a list \<Rightarrow> fault + 'a list" where
  "write_samples conv [] i samples = Inr samples"
| "write_samples conv (s # rest) i samples =
     (case conv s of
        Inl f \<Rightarrow> Inl f
      | Inr v \<Rightarrow>
          if i < length samples then write_samples conv rest (Suc i) (samples[i := v])
          else Inl Out_of_bounds)"

text \<open>
  What the encoder and the transport answer during one block: the result of
  \<open>avcodec_send_frame\<close>, and for each turn of the drain loop the result of
  \<open>avcodec_receive_packet\<close> paired with the result of \<open>av_interleaved_write_frame\<close>
  (read only if a packet was received). An encoder has finitely many packets for one
  frame: when the list is used up it answers \<open>EAGAIN\<close>.
\<close>

record encoder_env =
  send_ok :: bool
  packets :: "(recv_result \<times> bool) list"

fun drain :: "string \<Rightarrow> avstream option \<Rightarrow> (recv_result \<times> bool) list \<Rightarrow> fault + event list" where
  "drain tag st [] = Inr [Avcodec_receive_packet Recv_EAGAIN]"
| "drain tag st ((Recv_EAGAIN, w) # rest) = Inr [Avcodec_receive_packet Recv_EAGAIN]"
| "drain tag st ((Recv_EOF, w) # rest) = Inr [Avcodec_receive_packet Recv_EOF]"
| "drain tag st ((Recv_error, w) # rest) =
     Inr [Avcodec_receive_packet Recv_error, Pd_error (tag @ ''Error encoding audio frame'')]"
| "drain tag st ((Recv_packet, w) # rest) =
     (case st of
        None \<Rightarrow> Inl Null_dereference
      | Some a \<Rightarrow>
          if \<not> w then
            Inr [Avcodec_receive_packet Recv_packet, Av_interleaved_write_frame (index a) False,
                 Av_packet_unref, Pd_error (tag @ ''Error while writing audio frame'')]
          else
            (case drain tag st rest of
               Inl f \<Rightarrow> Inl f
             | Inr es \<Rightarrow>
                 Inr (Avcodec_receive_packet Recv_packet # Av_interleaved_write_frame (index a) True
                      # Av_packet_unref # es)))"

text \<open>
  The part of the perform functions after the frame is prepared. \<open>tag\<close> is the
  prefix of the diagnostics: \<open>[rtmpstreamer~]\<close> in one file, empty in the other.
\<close>

definition encode_dispatch ::
  "string \<Rightarrow> ('a, 'b) streamer_scheme \<Rightarrow> 'a avframe \<Rightarrow> encoder_env
     \<Rightarrow> fault + ('a, 'b) streamer_scheme \<times> event list" where
  "encode_dispatch tag x fr env =
     (if \<not> send_ok env then
        Inr (x, [Avcodec_send_frame (frame_pts fr) (nb_samples fr) False,
                 Pd_error (tag @ ''Error sending frame to codec'')])
      else
        (case drain tag (audio_st x) (packets env) of
           Inl f \<Rightarrow> Inl f
         | Inr es \<Rightarrow> Inr (x, Avcodec_send_frame (frame_pts fr) (nb_samples fr) True # es)))"

text \<open>
  Frame preparation: the sample loop, then \<open>nb_samples = n\<close>, \<open>frame->pts = x->pts\<close>
  and \<open>x->pts += frame->nb_samples\<close>.
\<close>

definition prepare_frame ::
  "(sample \<Rightarrow> fault + 'a) \<Rightarrow> ('a, 'b) streamer_scheme \<Rightarrow> sample list
     \<Rightarrow> fault + ('a, 'b) streamer_scheme \<times> 'a avframe" where
  "prepare_frame conv x inp =
     (case frame x of
        None \<Rightarrow> Inl Null_dereference
      | Some fr \<Rightarrow>
          (case write_samples conv inp 0 (data fr) of
             Inl f \<Rightarrow> Inl f
           | Inr samples \<Rightarrow>
               let fr = fr\<lparr>data := samples, nb_samples := int (length inp), frame_pts := pts x\<rparr>;
                   x = x\<lparr>frame := Some fr, pts := pts x + word_of_int (nb_samples fr)\<rparr>
               in Inr (x, fr)))"

definition rtmpstreamer_tilde_perform ::
  "rtmpstreamer \<Rightarrow> sample list \<Rightarrow> encoder_env \<Rightarrow> fault + rtmpstreamer \<times> event list" where
  "rtmpstreamer_tilde_perform x inp env =
     (if streaming_active x then
        (case prepare_frame rtmp_convert x inp of
           Inl f \<Rightarrow> Inl f
         | Inr (x, fr) \<Rightarrow> encode_dispatch ''[rtmpstreamer~] '' x fr env)
      else Inr (x, []))"

definition rtspstreamer_tilde_perform ::
  "(real \<Rightarrow> real) \<Rightarrow> rtspstreamer \<Rightarrow> sample list \<Rightarrow> encoder_env
     \<Rightarrow> fault + rtspstreamer \<times> event list" where
  "rtspstreamer_tilde_perform rnd x inp env =
     (case prepare_frame (rtsp_convert rnd) x inp of
        Inl f \<Rightarrow> Inl f
      | Inr (x, fr) \<Rightarrow> encode_dispatch [] x fr env)"

subsection \<open>Connecting: \<open>initialize_streaming\<close> and \<open>rtspstreamer_tilde_new\<close>\<close>

text \<open>
  What the library answers during one connect sequence, one field per fallible call,
  together with the values the code reads back from the library's structures: the
  \<open>AVFMT_NOFILE\<close> flag of the output format, the index of the new stream and the
  \<open>frame_size\<close> of the codec context. \<open>open2_ok\<close> is read by the push variant only
  and \<open>frame_layout_copy_ok\<close> by the session variant only.
\<close>

record init_env =
  alloc_output_ok :: bool
  nofile_flag :: bool
  encoder_found :: bool
  new_stream_ok :: bool
  stream_index :: int
  alloc_context_ok :: bool
  codec_frame_size :: int
  layout_copy_ok :: bool
  open2_ok :: bool
  params_ok :: bool
  avio_open_ok :: bool
  write_header_ok :: bool
  frame_alloc_ok :: bool
  frame_layout_copy_ok :: bool
  get_buffer_ok :: bool

text \<open>
  \<open>url->s_name\<close>, the text of a symbol. The connect sequences read it only to pass
  it to the library and to a diagnostic, and their callers hand them a symbol.
\<close>

definition s_name :: "string option \<Rightarrow> string" where
  "s_name u = (case u of None \<Rightarrow> [] | Some name \<Rightarrow> name)"

definition quoted :: "string \<Rightarrow> string" where
  "quoted name = [CHR 0x27] @ name @ [CHR 0x27]"

text \<open>The calls made so far, put in front of the calls of the rest of the function.\<close>

definition emit :: "event list \<Rightarrow> 'r \<times> 'x \<times> event list \<Rightarrow> 'r \<times> 'x \<times> event list" where
  "emit es res = (fst res, fst (snd res), es @ snd (snd res))"

text \<open>
  \<open>frame->nb_samples = codec_ctx->frame_size\<close>, 1024 if that is 0, then
  \<open>av_frame_get_buffer\<close>: on success the frame has \<open>nb_samples\<close> slots (their first
  content, never read, is the value \<open>v\<close>, zero in both connect sequences). A frame
  without buffers has no slot.
\<close>

definition frame_capacity :: "avcodec \<Rightarrow> int" where
  "frame_capacity c = (if frame_size c = 0 then 1024 else frame_size c)"

definition new_frame :: "avcodec \<Rightarrow> 'a avframe" where
  "new_frame c = \<lparr>data = [], nb_samples = frame_capacity c, frame_pts = 0\<rparr>"

definition with_buffer :: "'a \<Rightarrow> 'a avframe \<Rightarrow> 'a avframe" where
  "with_buffer v fr = fr\<lparr>data := replicate (nat (nb_samples fr)) v\<rparr>"

text \<open>
  \<open>initialize_streaming\<close> of \<open>rtmpstreamer~.c\<close>. It returns 0 or -1, the object as
  the function leaves it, and the calls it made. Every failure branch is the C code's:
  a diagnostic and \<open>return -1\<close>. The library sets \<open>fmt_ctx\<close> to \<open>NULL\<close> when the
  allocation of the output context fails. The assignments of codec and stream
  parameters (sample format, bit rate, sample rate, time base, stream id) are read by
  the library only and are left out.
\<close>

definition initialize_streaming :: "rtmpstreamer \<Rightarrow> init_env \<Rightarrow> int \<times> rtmpstreamer \<times> event list" where
  "initialize_streaming x env =
     emit [Avformat_network_init]
     (if \<not> alloc_output_ok env then
        (- 1, x\<lparr>fmt_ctx := None\<rparr>,
         [Avformat_alloc_output_context2 False,
          Pd_error ''[rtmpstreamer~] Could not allocate output context''])
      else emit [Avformat_alloc_output_context2 True]
     (let x = x\<lparr>fmt_ctx := Some \<lparr>nofile = nofile_flag env, pb_open = False\<rparr>\<rparr> in
      if \<not> encoder_found env then
        (- 1, x, [Avcodec_find_encoder False, Pd_error ''[rtmpstreamer~] AAC codec not found''])
      else emit [Avcodec_find_encoder True]
     (if \<not> new_stream_ok env then
        (- 1, x\<lparr>audio_st := None\<rparr>,
         [Avformat_new_stream False, Pd_error ''[rtmpstreamer~] Could not allocate stream''])
      else emit [Avformat_new_stream True]
     (let x = x\<lparr>audio_st := Some \<lparr>index = stream_index env\<rparr>\<rparr> in
      if \<not> alloc_context_ok env then
        (- 1, x\<lparr>codec_ctx := None\<rparr>,
         [Avcodec_alloc_context3 False,
          Pd_error ''[rtmpstreamer~] Could not allocate codec context''])
      else emit [Avcodec_alloc_context3 True]
     (let c = \<lparr>frame_size = codec_frame_size env\<rparr>;
          x = x\<lparr>codec_ctx := Some c\<rparr> in
      if \<not> layout_copy_ok env then
        (- 1, x, [Av_channel_layout_copy False,
                  Pd_error ''[rtspstreamer~] Could not set channel layout''])
      else emit [Av_channel_layout_copy True]
     (if \<not> open2_ok env then
        (- 1, x, [Avcodec_open2 False, Pd_error ''[rtmpstreamer~] Could not open codec''])
      else emit [Avcodec_open2 True]
     (if \<not> params_ok env then
        (- 1, x, [Avcodec_parameters_from_context False,
                  Pd_error ''[rtmpstreamer~] Could not copy codec parameters''])
      else emit [Avcodec_parameters_from_context True]
     (if \<not> nofile_flag env \<and> \<not> avio_open_ok env then
        (- 1, x, [Avio_open False,
                  Pd_error (''[rtmpstreamer~] Could not open output URL '' @ quoted (s_name (url x)))])
      else emit (if \<not> nofile_flag env then [Avio_open True] else [])
     (let x = (if \<not> nofile_flag env
               then x\<lparr>fmt_ctx := Some \<lparr>nofile = nofile_flag env, pb_open = True\<rparr>\<rparr> else x) in
      emit [Av_dict_set, Av_dict_set]
     (if \<not> write_header_ok env then
        (- 1, x, [Avformat_write_header False,
                  Pd_error ''[rtmpstreamer~] Error occurred when opening output URL'',
                  Av_dict_free])
      else emit [Avformat_write_header True, Av_dict_free]
     (if \<not> frame_alloc_ok env then
        (- 1, x\<lparr>frame := None\<rparr>,
         [Av_frame_alloc False, Pd_error ''[rtmpstreamer~] Could not allocate audio frame''])
      else emit [Av_frame_alloc True]
     (let fr = new_frame c;
          x = x\<lparr>frame := Some fr\<rparr> in
      if \<not> get_buffer_ok env then
        (- 1, x, [Av_frame_get_buffer False,
                  Pd_error ''[rtmpstreamer~] Could not allocate audio data buffers''])
      else
        (0, x\<lparr>frame := Some (with_buffer (Fin 0) fr)\<rparr>, [Av_frame_get_buffer True])))))))))))))"

text \<open>
  The connect sequence of \<open>rtspstreamer_tilde_new\<close>, after the fields are set:
  the same calls in the order of that file (no \<open>avcodec_open2\<close>, a second layout copy
  for the frame). Every failure branch is a diagnostic and \<open>return NULL\<close>, modelled
  as -1; the object is not handed back to the host then.
\<close>

definition rtsp_connect :: "rtspstreamer \<Rightarrow> init_env \<Rightarrow> int \<times> rtspstreamer \<times> event list" where
  "rtsp_connect x env =
     emit [Avformat_network_init]
     (if \<not> alloc_output_ok env then
        (- 1, x\<lparr>fmt_ctx := None\<rparr>,
         [Avformat_alloc_output_context2 False, Pd_error ''Could not allocate output context''])
      else emit [Avformat_alloc_output_context2 True]
     (let x = x\<lparr>fmt_ctx := Some \<lparr>nofile = nofile_flag env, pb_open = False\<rparr>\<rparr> in
      if \<not> encoder_found env then
        (- 1, x, [Avcodec_find_encoder False, Pd_error ''Codec not found''])
      else emit [Avcodec_find_encoder True]
     (if \<not> new_stream_ok env then
        (- 1, x\<lparr>audio_st := None\<rparr>,
         [Avformat_new_stream False, Pd_error ''Could not allocate stream''])
      else emit [Avformat_new_stream True]
     (let x = x\<lparr>audio_st := Some \<lparr>index = stream_index env\<rparr>\<rparr> in
      if \<not> alloc_context_ok env then
        (- 1, x\<lparr>codec_ctx := None\<rparr>,
         [Avcodec_alloc_context3 False, Pd_error ''Could not allocate codec context''])
      else emit [Avcodec_alloc_context3 True]
     (let c = \<lparr>frame_size = codec_frame_size env\<rparr>;
          x = x\<lparr>codec_ctx := Some c\<rparr> in
      if \<not> layout_copy_ok env then
        (- 1, x, [Av_channel_layout_copy False, Pd_error ''Could not set channel layout''])
      else emit [Av_channel_layout_copy True]
     (if \<not> params_ok env then
        (- 1, x, [Avcodec_parameters_from_context False,
                  Pd_error ''Could not copy codec parameters''])
      else emit [Avcodec_parameters_from_context True]
     (if \<not> nofile_flag env \<and> \<not> avio_open_ok env then
        (- 1, x, [Avio_open False,
                  Pd_error (''Could not open output URL '' @ quoted (s_name (url x)))])
      else emit (if \<not> nofile_flag env then [Avio_open True] else [])
     (let x = (if \<not> nofile_flag env
               then x\<lparr>fmt_ctx := Some \<lparr>nofile = nofile_flag env, pb_open = True\<rparr>\<rparr> else x) in
      emit [Av_dict_set]
     (if \<not> write_header_ok env then
        (- 1, x, [Avformat_write_header False,
                  Pd_error ''Error occurred when opening output URL'', Av_dict_free])
      else emit [Avformat_write_header True, Av_dict_free]
     (if \<not> frame_alloc_ok env then
        (- 1, x\<lparr>frame := None\<rparr>,
         [Av_frame_alloc False, Pd_error ''Could not allocate audio frame''])
      else emit [Av_frame_alloc True]
     (let fr = new_frame c;
          x = x\<lparr>frame := Some fr\<rparr> in
      if \<not> frame_layout_copy_ok env then
        (- 1, x, [Av_channel_layout_copy False,
                  Pd_error ''Could not copy channel layout to frame''])
      else emit [Av_channel_layout_copy True]
     (if \<not> get_buffer_ok env then
        (- 1, x, [Av_frame_get_buffer False, Pd_error ''Could not allocate audio data buffers''])
      else
        (0, x\<lparr>frame := Some (with_buffer 0 fr)\<rparr>, [Av_frame_get_buffer True])))))))))))))"

text \<open>
  \<open>rtspstreamer_tilde_new\<close>: the symbol of the creation argument is never \<open>NULL\<close>
  (the class is registered with \<open>A_DEFSYM\<close>). The result is the object handed to the
  host, \<open>None\<close> for \<open>return NULL\<close>, and the calls made.
\<close>

definition rtspstreamer_tilde_new :: "string \<Rightarrow> init_env \<Rightarrow> rtspstreamer option \<times> event list" where
  "rtspstreamer_tilde_new s env =
     (let x = \<lparr>url = Some s, fmt_ctx = None, audio_st = None, codec_ctx = None,
                frame = None, pts = 0\<rparr>;
          (ret, x, es) = rtsp_connect x env
      in (if ret = 0 then Some x else None, es))"

subsection \<open>Tearing down: \<open>cleanup_streaming\<close> and \<open>rtspstreamer_tilde_free\<close>\<close>

definition cleanup_streaming :: "rtmpstreamer \<Rightarrow> rtmpstreamer \<times> event list" where
  "cleanup_streaming x =
     (let (x, es1) =
            (case fmt_ctx x of
               Some f \<Rightarrow>
                 (x\<lparr>fmt_ctx := None\<rparr>,
                  [Av_write_trailer] @ (if \<not> nofile f then [Avio_closep] else [])
                    @ [Avformat_free_context])
             | None \<Rightarrow> (x, []));
          (x, es2) =
            (case codec_ctx x of
               Some c \<Rightarrow> (x\<lparr>codec_ctx := None\<rparr>, [Avcodec_free_context])
             | None \<Rightarrow> (x, []));
          (x, es3) =
            (case frame x of
               Some fr \<Rightarrow> (x\<lparr>frame := None\<rparr>, [Av_frame_free])
             | None \<Rightarrow> (x, []))
      in (x, es1 @ es2 @ es3 @ [Avformat_network_deinit]))"

text \<open>
  The calls \<open>cleanup_streaming\<close> makes on an object whose pointers are all set, as
  \<open>cleanup_streaming_connected\<close> shows.
\<close>

definition teardown_calls :: "avformat \<Rightarrow> event list" where
  "teardown_calls f =
     Av_write_trailer # (if \<not> nofile f then [Avio_closep] else [])
       @ [Avformat_free_context, Avcodec_free_context, Av_frame_free, Avformat_network_deinit]"

text \<open>
  The destructor of the session variant. \<open>avio_closep\<close>, \<open>avcodec_free_context\<close> and
  \<open>av_frame_free\<close> take the address of a field and set it to \<open>NULL\<close>;
  \<open>avformat_free_context\<close> takes the pointer, so \<open>fmt_ctx\<close> is left set, pointing to
  the context that has been released (shown here as the calls left it, its transport
  closed).
\<close>

definition rtspstreamer_tilde_free :: "rtspstreamer \<Rightarrow> rtspstreamer \<times> event list" where
  "rtspstreamer_tilde_free x =
     (let (x, es1) =
            (case fmt_ctx x of
               Some f \<Rightarrow>
                 (if \<not> nofile f
                  then (x\<lparr>fmt_ctx := Some (f\<lparr>pb_open := False\<rparr>)\<rparr>,
                        [Av_write_trailer, Avio_closep, Avformat_free_context])
                  else (x, [Av_write_trailer, Avformat_free_context]))
             | None \<Rightarrow> (x, []));
          (x, es2) =
            (case codec_ctx x of
               Some c \<Rightarrow> (x\<lparr>codec_ctx := None\<rparr>, [Av_channel_layout_uninit, Avcodec_free_context])
             | None \<Rightarrow> (x, []));
          (x, es3) =
            (case frame x of
               Some fr \<Rightarrow> (x\<lparr>frame := None\<rparr>, [Av_channel_layout_uninit, Av_frame_free])
             | None \<Rightarrow> (x, []))
      in (x, es1 @ es2 @ es3 @ [Avformat_network_deinit]))"

subsection \<open>Creation, reconfiguration and destruction of \<open>rtmpstreamer~\<close>\<close>

definition is_valid_rtmp_url :: "string \<Rightarrow> bool" where
  "is_valid_rtmp_url u = (take 7 u = ''rtmp://'')"

definition rtmpstreamer_tilde_new :: "string option \<Rightarrow> rtmpstreamer \<times> event list" where
  "rtmpstreamer_tilde_new s =
     (let x = \<lparr>url = None, fmt_ctx = None, audio_st = None, codec_ctx = None,
                frame = None, pts = 0, streaming_active = False\<rparr>
      in if s \<noteq> None \<and> length (s_name s) > 0 \<and> is_valid_rtmp_url (s_name s) then
           (x\<lparr>url := s\<rparr>,
            [Post (''[rtmpstreamer~] Valid URL provided at creation: '' @ s_name s)])
         else
           (x, [Post ''[rtmpstreamer~] Invalid or no URL provided at creation. Non-streaming mode.'']))"

definition rtmpstreamer_tilde_symbol ::
  "rtmpstreamer \<Rightarrow> string option \<Rightarrow> init_env \<Rightarrow> rtmpstreamer \<times> event list" where
  "rtmpstreamer_tilde_symbol x s env =
     (let (x, es_cleanup) =
            (if streaming_active x then
               (let (x, es) = cleanup_streaming x in (x\<lparr>streaming_active := False\<rparr>, es))
             else (x, []));
          x = x\<lparr>url := s\<rparr>
      in if url x \<noteq> None \<and> length (s_name (url x)) > 0 then
           (let (ret, x, es_init) = initialize_streaming x env in
            if ret = 0 then
              (x\<lparr>streaming_active := True\<rparr>,
               es_cleanup
                 @ [Post (''[rtmpstreamer~] Attempting to stream to '' @ s_name (url x))]
                 @ es_init
                 @ [Post (''[rtmpstreamer~] Successfully streaming to '' @ s_name (url x))])
            else
              (x,
               es_cleanup
                 @ [Post (''[rtmpstreamer~] Attempting to stream to '' @ s_name (url x))]
                 @ es_init
                 @ [Pd_error (''[rtmpstreamer~] Failed to initialize streaming to ''
                              @ quoted (s_name (url x)))]))
         else
           (x, es_cleanup @ [Post ''[rtmpstreamer~] Invalid or empty URL. Non-streaming mode.'']))"

definition rtmpstreamer_tilde_free :: "rtmpstreamer \<Rightarrow> rtmpstreamer \<times> event list" where
  "rtmpstreamer_tilde_free x = (if streaming_active x then cleanup_streaming x else (x, []))"

text \<open>The symbol method of the session variant.\<close>

definition rtspstreamer_tilde_symbol :: "rtspstreamer \<Rightarrow> string option \<Rightarrow> rtspstreamer \<times> event list" where
  "rtspstreamer_tilde_symbol x s =
     (x\<lparr>url := s\<rparr>, [Pd_error ''Changing URL at runtime is not supported''])"

subsection \<open>Resources held, read off the calls\<close>

text \<open>
  The handles the library hands out and takes back: the output context, the open
  transport (\<open>pb\<close>), the codec context and the frame. A stream lives and dies with
  its output context, a frame's buffers with the frame.
\<close>

datatype resource = Format_context | Transport | Codec_context | Frame_handle

fun acquires :: "event \<Rightarrow> resource option" where
  "acquires (Avformat_alloc_output_context2 True) = Some Format_context"
| "acquires (Avio_open True) = Some Transport"
| "acquires (Avcodec_alloc_context3 True) = Some Codec_context"
| "acquires (Av_frame_alloc True) = Some Frame_handle"
| "acquires e = None"

fun releases :: "event \<Rightarrow> resource option" where
  "releases Avformat_free_context = Some Format_context"
| "releases Avio_closep = Some Transport"
| "releases Avcodec_free_context = Some Codec_context"
| "releases Av_frame_free = Some Frame_handle"
| "releases e = None"

text \<open>How many more handles of a kind are held after the calls than before them.\<close>

definition held :: "resource \<Rightarrow> event list \<Rightarrow> int" where
  "held r es = int (length (filter (\<lambda>e. acquires e = Some r) es))
             - int (length (filter (\<lambda>e. releases e = Some r) es))"

text \<open>The largest number held at any point of the calls, starting from \<open>h\<close>.\<close>

fun peak :: "resource \<Rightarrow> int \<Rightarrow> event list \<Rightarrow> int" where
  "peak r h [] = h"
| "peak r h (e # es) = max h (peak r (h + held r [e]) es)"

text \<open>The handles an object's fields refer to.\<close>

definition holds :: "('a, 'b) streamer_scheme \<Rightarrow> resource \<Rightarrow> int" where
  "holds x r =
     (case r of
        Format_context \<Rightarrow> (if fmt_ctx x = None then 0 else 1)
      | Transport \<Rightarrow> (case fmt_ctx x of None \<Rightarrow> 0 | Some f \<Rightarrow> if pb_open f then 1 else 0)
      | Codec_context \<Rightarrow> (if codec_ctx x = None then 0 else 1)
      | Frame_handle \<Rightarrow> (if frame x = None then 0 else 1))"

text \<open>
  An object as a successful connect sequence leaves it: all four pointers set, the
  transport open unless the format has no file of its own.
\<close>

definition connected :: "('a, 'b) streamer_scheme \<Rightarrow> bool" where
  "connected x =
     ((case fmt_ctx x of None \<Rightarrow> False | Some f \<Rightarrow> pb_open f = (\<not> nofile f))
      \<and> audio_st x \<noteq> None \<and> codec_ctx x \<noteq> None \<and> frame x \<noteq> None)"

subsection \<open>Properties of the calls of one block\<close>

text \<open>Every packet handed to the transport is released by the very next call.\<close>

fun unref_after_write :: "event list \<Rightarrow> bool" where
  "unref_after_write [] = True"
| "unref_after_write (Av_interleaved_write_frame i ok # es) =
     ((case es of Av_packet_unref # _ \<Rightarrow> True | _ \<Rightarrow> False) \<and> unref_after_write es)"
| "unref_after_write (e # es) = unref_after_write es"

text \<open>
  A failed submission, drain or transmission is followed by one error report (after
  the release of the packet, for a transmission) and by nothing else.
\<close>

fun failure_ends_block :: "event list \<Rightarrow> bool" where
  "failure_ends_block [] = True"
| "failure_ends_block (Avcodec_send_frame p n False # es) =
     (case es of [Pd_error m] \<Rightarrow> True | _ \<Rightarrow> False)"
| "failure_ends_block (Avcodec_receive_packet Recv_error # es) =
     (case es of [Pd_error m] \<Rightarrow> True | _ \<Rightarrow> False)"
| "failure_ends_block (Av_interleaved_write_frame i False # es) =
     (case es of [Av_packet_unref, Pd_error m] \<Rightarrow> True | _ \<Rightarrow> False)"
| "failure_ends_block (e # es) = failure_ends_block es"

text \<open>The calls of a teardown.\<close>

fun is_teardown :: "event \<Rightarrow> bool" where
  "is_teardown Av_write_trailer = True"
| "is_teardown Avio_closep = True"
| "is_teardown Avformat_free_context = True"
| "is_teardown Avcodec_free_context = True"
| "is_teardown Av_frame_free = True"
| "is_teardown Avformat_network_deinit = True"
| "is_teardown e = False"

text \<open>The frames submitted to the encoder: presentation timestamp and length.\<close>

fun submitted :: "event list \<Rightarrow> (64 word \<times> int) list" where
  "submitted [] = []"
| "submitted (Avcodec_send_frame p n ok # es) = (p, n) # submitted es"
| "submitted (e # es) = submitted es"

subsection \<open>The host: consecutive blocks\<close>

text \<open>
  The host's DSP chain calls the perform function once per block; a fault ends the run.
  One function for each variant.
\<close>

fun rtmp_blocks ::
  "rtmpstreamer \<Rightarrow> (sample list \<times> encoder_env) list \<Rightarrow> fault + rtmpstreamer \<times> event list" where
  "rtmp_blocks x [] = Inr (x, [])"
| "rtmp_blocks x ((inp, env) # bs) =
     (case rtmpstreamer_tilde_perform x inp env of
        Inl f \<Rightarrow> Inl f
      | Inr (x, es) \<Rightarrow>
          (case rtmp_blocks x bs of
             Inl f \<Rightarrow> Inl f
           | Inr (x, es') \<Rightarrow> Inr (x, es @ es')))"

fun rtsp_blocks ::
  "(real \<Rightarrow> real) \<Rightarrow> rtspstreamer \<Rightarrow> (sample list \<times> encoder_env) list
     \<Rightarrow> fault + rtspstreamer \<times> event list" where
  "rtsp_blocks rnd x [] = Inr (x, [])"
| "rtsp_blocks rnd x ((inp, env) # bs) =
     (case rtspstreamer_tilde_perform rnd x inp env of
        Inl f \<Rightarrow> Inl f
      | Inr (x, es) \<Rightarrow>
          (case rtsp_blocks rnd x bs of
             Inl f \<Rightarrow> Inl f
           | Inr (x, es') \<Rightarrow> Inr (x, es @ es')))"

subsection \<open>Concrete environments\<close>

text \<open>
  A library in which every call of a connect sequence succeeds: a format with a file
  of its own, stream 0, a codec with frames of 4 samples.
\<close>

definition all_ok :: init_env where
  "all_ok =
     \<lparr>alloc_output_ok = True, nofile_flag = False, encoder_found = True, new_stream_ok = True,
      stream_index = 0, alloc_context_ok = True, codec_frame_size = 4, layout_copy_ok = True,
      open2_ok = True, params_ok = True, avio_open_ok = True, write_header_ok = True,
      frame_alloc_ok = True, frame_layout_copy_ok = True, get_buffer_ok = True\<rparr>"

text \<open>An encoder that accepts the frame and has no packet ready.\<close>

definition quiet :: encoder_env where
  "quiet = \<lparr>send_ok = True, packets = []\<rparr>"

text \<open>A push object streaming to \<open>rtmp://a/live\<close>, freshly connected.\<close>

definition streaming_a :: rtmpstreamer where
  "streaming_a =
     fst (rtmpstreamer_tilde_symbol (fst (rtmpstreamer_tilde_new None)) (Some ''rtmp://a/live'')
            all_ok)"

text \<open>A session object streaming to \<open>rtsp://a/live\<close>, freshly connected.\<close>

definition session_a :: rtspstreamer where
  "session_a =
     fst (snd (rtsp_connect \<lparr>url = Some ''rtsp://a/live'', fmt_ctx = None, audio_st = None,
                             codec_ctx = None, frame = None, pts = 0\<rparr> all_ok))"

text \<open>
  An encoder with three packets for the frame, and a transport that takes the first
  and fails on the second.
\<close>

definition write_fails :: encoder_env where
  "write_fails =
     \<lparr>send_ok = True, packets = [(Recv_packet, True), (Recv_packet, False), (Recv_packet, True)]\<rparr>"

text \<open>
  The object \<open>streaming_a\<close> after the block of the samples 1/2 and 3, and that object
  after the symbol \<open>rtmp://b/live\<close>.
\<close>

definition played_a :: rtmpstreamer where
  "played_a =
     streaming_a\<lparr>frame := Some \<lparr>data = [Fin (1 / 2), Fin 1, Fin 0, Fin 0], nb_samples = 2,
                                   frame_pts = 0\<rparr>,
                  pts := 2\<rparr>"

definition streaming_b :: rtmpstreamer where
  "streaming_b = fst (rtmpstreamer_tilde_symbol played_a (Some ''rtmp://b/live'') all_ok)"

section \<open>Verification\<close>

subsection \<open>Sample conversion\<close>

lemma clamp_sample_cases:
  "clamp_sample s =
     (if fless s (Fin (- 1)) then Fin (- 1) else if fless (Fin 1) s then Fin 1 else s)"
  by (simp add: clamp_sample_def)

lemma clamp_sample_NaN: "clamp_sample NaN = NaN"
  by (simp add: clamp_sample_cases)

lemma clamp_sample_Fin: "s \<noteq> NaN \<Longrightarrow> \<exists>v. clamp_sample s = Fin v \<and> - 1 \<le> v \<and> v \<le> 1"
  by (cases s) (simp_all add: clamp_sample_cases)



lemma trunc_mono: "a \<le> b \<Longrightarrow> trunc a \<le> trunc b"
proof -
  assume ab: "a \<le> b"
  show ?thesis
  proof (cases "0 \<le> a")
    case True
    then show ?thesis using ab by (simp add: trunc_def floor_mono)
  next
    case False
    show ?thesis
    proof (cases "0 \<le> b")
      case True
      have "\<lceil>a\<rceil> \<le> 0" using False by (simp add: ceiling_le_zero)
      moreover have "0 \<le> \<lfloor>b\<rfloor>" using True by simp
      ultimately have "\<lceil>a\<rceil> \<le> \<lfloor>b\<rfloor>" by (rule order_trans)
      then show ?thesis using False True by (simp add: trunc_def)
    next
      case nb: False
      then show ?thesis using False ab by (simp add: trunc_def ceiling_mono)
    qed
  qed
qed

lemma trunc_of_int: "trunc (of_int k) = k"
  by (simp add: trunc_def)

lemma trunc_scaled_bounds:
  assumes "mono rnd" "rnd 32767 = 32767" "rnd (- 32767) = - 32767" and "- 1 \<le> (v::real)" "v \<le> 1"
  shows "- 32767 \<le> trunc (rnd (v * 32767)) \<and> trunc (rnd (v * 32767)) \<le> 32767"
proof -
  have "- 32767 \<le> v * 32767" "v * 32767 \<le> 32767"
    using assms(4,5) by auto
  then have "rnd (- 32767) \<le> rnd (v * 32767)" "rnd (v * 32767) \<le> rnd 32767"
    using assms(1) by (simp_all add: monoD)
  then have b: "real_of_int (- 32767) \<le> rnd (v * 32767)" "rnd (v * 32767) \<le> real_of_int 32767"
    using assms(2,3) by simp_all
  have "trunc (of_int (- 32767)) \<le> trunc (rnd (v * 32767))"
    using b(1) by (rule trunc_mono)
  moreover have "trunc (rnd (v * 32767)) \<le> trunc (of_int 32767)"
    using b(2) by (rule trunc_mono)
  ultimately show ?thesis unfolding trunc_of_int by simp
qed

lemma sint_int16: "- 32768 \<le> t \<Longrightarrow> t \<le> 32767 \<Longrightarrow> sint (word_of_int t :: 16 word) = t"
  by (simp add: signed_of_int signed_take_bit_int_eq_self)


lemma rtsp_convert_value:
  assumes "mono rnd" "rnd 32767 = 32767" "rnd (- 32767) = - 32767"
    and "clamp_sample s = Fin v"
  shows "- 1 \<le> v \<and> v \<le> 1 \<and> rtsp_convert rnd s = Inr (word_of_int (trunc (rnd (v * 32767))))
         \<and> sint (word_of_int (trunc (rnd (v * 32767))) :: 16 word) = trunc (rnd (v * 32767))
         \<and> - 32767 \<le> trunc (rnd (v * 32767)) \<and> trunc (rnd (v * 32767)) \<le> 32767"
proof -
  have "s \<noteq> NaN" using assms(4) by (auto simp: clamp_sample_NaN)
  from clamp_sample_Fin [OF this] assms(4) have v: "- 1 \<le> v" "v \<le> 1" by auto
  note b = trunc_scaled_bounds [OF assms(1-3) v]
  then have "sint (word_of_int (trunc (rnd (v * 32767))) :: 16 word) = trunc (rnd (v * 32767))"
    by (intro sint_int16) auto
  then show ?thesis using b v by (simp add: rtsp_convert_def assms(4))
qed

lemma rtsp_convert_NaN: "rtsp_convert rnd NaN = Inl Undefined_conversion"
  by (simp add: rtsp_convert_def clamp_sample_NaN)

lemma rtsp_convert_total:
  assumes "mono rnd" "rnd 32767 = 32767" "rnd (- 32767) = - 32767" and "s \<noteq> NaN"
  shows "\<exists>w. rtsp_convert rnd s = Inr w"
  using clamp_sample_Fin [OF assms(4)] rtsp_convert_value [OF assms(1-3)] by blast


subsection \<open>The frame assembler and the encode-dispatch loop\<close>

lemma write_samples_result:
  assumes "\<And>s. conv s = Inr (g s)" and "i \<le> length buf"
  shows "write_samples conv inp i buf =
           (if i + length inp \<le> length buf
            then Inr (take i buf @ map g inp @ drop (i + length inp) buf)
            else Inl Out_of_bounds)"
  using assms(2)
proof (induction inp arbitrary: i buf)
  case Nil
  then show ?case by simp
next
  case (Cons s rest)
  show ?case
  proof (cases "i < length buf")
    case True
    then have "Suc i \<le> length (buf[i := g s])" by simp
    from Cons.IH [OF this] True show ?thesis
      by (simp add: assms(1) take_Suc_conv_app_nth)
  next
    case False
    then show ?thesis by (simp add: assms(1))
  qed
qed

lemma drain_total: "\<exists>es. drain tag (Some a) ps = Inr es"
  by (induction tag "Some a" ps rule: drain.induct) auto

lemma prepare_frame_result:
  assumes "\<And>s. conv s = Inr (g s)" and "frame x = Some fr"
  shows "prepare_frame conv x inp =
           (if length inp \<le> length (data fr)
            then Inr (x\<lparr>frame := Some (fr\<lparr>data := map g inp @ drop (length inp) (data fr),
                                           nb_samples := int (length inp), frame_pts := pts x\<rparr>),
                        pts := pts x + word_of_nat (length inp)\<rparr>,
                      fr\<lparr>data := map g inp @ drop (length inp) (data fr),
                         nb_samples := int (length inp), frame_pts := pts x\<rparr>)
            else Inl Out_of_bounds)"
  using assms(2) write_samples_result [of conv g 0 "data fr" inp, OF assms(1)]
  by (simp add: prepare_frame_def Let_def)


lemma drain_props:
  "drain tag st ps = Inr es \<Longrightarrow>
     (\<forall>e \<in> set es. \<not> is_teardown e) \<and> unref_after_write es \<and> failure_ends_block es
     \<and> submitted es = []"
proof (induction tag st ps arbitrary: es rule: drain.induct)
  case (5 tag st w rest)
  show ?case
  proof (cases st)
    case None
    with 5 show ?thesis by simp
  next
    case (Some a)
    show ?thesis
    proof (cases w)
      case False
      with 5 Some show ?thesis by auto
    next
      case True
      with 5(2) Some obtain es' where d: "drain tag st rest = Inr es'"
        and es: "es = Avcodec_receive_packet Recv_packet # Av_interleaved_write_frame (index a) True
                      # Av_packet_unref # es'"
        by (auto split: sum.splits)
      from 5(1) [OF Some _ d] True
      have "(\<forall>e \<in> set es'. \<not> is_teardown e) \<and> unref_after_write es' \<and> failure_ends_block es'
              \<and> submitted es' = []"
        by simp
      then show ?thesis by (simp add: es)
    qed
  qed
qed auto

lemma encode_dispatch_result:
  assumes "encode_dispatch tag x fr env = Inr (x', es)"
  shows "x' = x \<and> (\<forall>e \<in> set es. \<not> is_teardown e) \<and> unref_after_write es
         \<and> failure_ends_block es \<and> submitted es = [(frame_pts fr, nb_samples fr)]
         \<and> (\<not> send_ok env \<longrightarrow>
              es = [Avcodec_send_frame (frame_pts fr) (nb_samples fr) False,
                    Pd_error (tag @ ''Error sending frame to codec'')])"
proof (cases "send_ok env")
  case False
  with assms show ?thesis by (auto simp: encode_dispatch_def)
next
  case True
  with assms obtain es' where d: "drain tag (audio_st x) (packets env) = Inr es'"
    and es: "es = Avcodec_send_frame (frame_pts fr) (nb_samples fr) True # es'" and x: "x' = x"
    by (auto simp: encode_dispatch_def split: sum.splits)
  from drain_props [OF d] True show ?thesis by (simp add: es x)
qed

lemma encode_dispatch_total:
  assumes "audio_st x \<noteq> None"
  shows "\<exists>es. encode_dispatch tag x fr env = Inr (x, es)"
proof -
  from assms obtain a where a: "audio_st x = Some a" by auto
  obtain es where "drain tag (Some a) (packets env) = Inr es"
    using drain_total by blast
  then show ?thesis by (simp add: encode_dispatch_def a)
qed

lemma write_samples_Inr:
  "write_samples conv inp i buf = Inr buf' \<Longrightarrow> i \<le> length buf \<Longrightarrow>
     i + length inp \<le> length buf \<and> length buf' = length buf
     \<and> (\<forall>k<length inp. conv (inp ! k) = Inr (buf' ! (i + k)))
     \<and> (\<forall>j<i. buf' ! j = buf ! j)
     \<and> (\<forall>j. i + length inp \<le> j \<longrightarrow> buf' ! j = buf ! j)"
proof (induction inp arbitrary: i buf)
  case Nil
  then show ?case by simp
next
  case (Cons s rest)
  from Cons.prems(1) obtain v where v: "conv s = Inr v" and i: "i < length buf"
    and r: "write_samples conv rest (Suc i) (buf[i := v]) = Inr buf'"
    by (auto split: sum.splits if_splits)
  from i have "Suc i \<le> length (buf[i := v])" by simp
  from Cons.IH [OF r this]
  have len: "Suc i + length rest \<le> length buf" "length buf' = length buf"
    and conv: "\<forall>k<length rest. conv (rest ! k) = Inr (buf' ! (Suc i + k))"
    and low: "\<forall>j<Suc i. buf' ! j = (buf[i := v]) ! j"
    and high: "\<forall>j. Suc i + length rest \<le> j \<longrightarrow> buf' ! j = (buf[i := v]) ! j"
    by simp_all
  have at: "buf' ! i = v" using low i by simp
  have c: "conv ((s # rest) ! k) = Inr (buf' ! (i + k))" if "k < length (s # rest)" for k
  proof (cases k)
    case 0
    then show ?thesis by (simp add: v at)
  next
    case (Suc m)
    with that conv show ?thesis by simp
  qed
  have l: "buf' ! j = buf ! j" if "j < i" for j
    using low that by simp
  have h: "buf' ! j = buf ! j" if "i + length (s # rest) \<le> j" for j
    using high that by simp
  from len c l h show ?case by simp
qed

lemma write_samples_fits:
  assumes "\<And>s. s \<in> set inp \<Longrightarrow> \<exists>w. conv s = Inr w" and "i \<le> length buf"
  shows "(i + length inp \<le> length buf \<longrightarrow> (\<exists>buf'. write_samples conv inp i buf = Inr buf'))
         \<and> (length buf < i + length inp \<longrightarrow> write_samples conv inp i buf = Inl Out_of_bounds)"
  using assms
proof (induction inp arbitrary: i buf)
  case Nil
  then show ?case by simp
next
  case (Cons s rest)
  from Cons.prems(1) [of s] obtain w where w: "conv s = Inr w" by auto
  show ?case
  proof (cases "i < length buf")
    case True
    then have "Suc i \<le> length (buf[i := w])" by simp
    from Cons.IH [OF _ this] Cons.prems(1) True show ?thesis by (simp add: w)
  next
    case False
    then show ?thesis by (simp add: w)
  qed
qed

lemma prepare_frame_fields:
  assumes "prepare_frame conv x inp = Inr (x', fr')"
  shows "x' = x\<lparr>frame := Some fr', pts := pts x + word_of_nat (length inp)\<rparr>
         \<and> nb_samples fr' = int (length inp) \<and> frame_pts fr' = pts x
         \<and> (\<exists>fr. frame x = Some fr \<and> length (data fr') = length (data fr)
               \<and> (\<forall>j. length inp \<le> j \<longrightarrow> data fr' ! j = data fr ! j))
         \<and> length inp \<le> length (data fr')
         \<and> (\<forall>k<length inp. conv (inp ! k) = Inr (data fr' ! k))"
proof -
  from assms obtain fr buf' where fr: "frame x = Some fr"
    and w: "write_samples conv inp 0 (data fr) = Inr buf'"
    and fr': "fr' = fr\<lparr>data := buf', nb_samples := int (length inp), frame_pts := pts x\<rparr>"
    and x': "x' = x\<lparr>frame := Some fr', pts := pts x + word_of_nat (length inp)\<rparr>"
    by (auto simp: prepare_frame_def Let_def split: option.splits sum.splits)
  from write_samples_Inr [OF w] fr fr' x' show ?thesis by simp
qed

lemma rtmp_perform_result:
  assumes "rtmpstreamer_tilde_perform x inp env = Inr (x', es)" and "streaming_active x"
  shows "\<exists>fr'. x' = x\<lparr>frame := Some fr', pts := pts x + word_of_nat (length inp)\<rparr>
          \<and> length inp \<le> length (data fr')
          \<and> (\<forall>k<length inp. data fr' ! k = clamp_sample (inp ! k))
          \<and> (\<forall>e \<in> set es. \<not> is_teardown e) \<and> unref_after_write es \<and> failure_ends_block es
          \<and> submitted es = [(pts x, int (length inp))]
          \<and> (\<not> send_ok env \<longrightarrow>
                es = [Avcodec_send_frame (pts x) (int (length inp)) False,
                      Pd_error ''[rtmpstreamer~] Error sending frame to codec''])"
proof -
  from assms obtain x1 fr1 where p: "prepare_frame rtmp_convert x inp = Inr (x1, fr1)"
    and d: "encode_dispatch ''[rtmpstreamer~] '' x1 fr1 env = Inr (x', es)"
    by (auto simp: rtmpstreamer_tilde_perform_def split: sum.splits)
  from prepare_frame_fields [OF p] encode_dispatch_result [OF d]
  show ?thesis by (auto simp: rtmp_convert_def)
qed

lemma rtsp_perform_result:
  assumes "rtspstreamer_tilde_perform rnd x inp env = Inr (x', es)"
  shows "\<exists>fr'. x' = x\<lparr>frame := Some fr', pts := pts x + word_of_nat (length inp)\<rparr>
          \<and> length inp \<le> length (data fr')
          \<and> (\<forall>k<length inp. rtsp_convert rnd (inp ! k) = Inr (data fr' ! k))
          \<and> (\<forall>e \<in> set es. \<not> is_teardown e) \<and> unref_after_write es \<and> failure_ends_block es
          \<and> submitted es = [(pts x, int (length inp))]
          \<and> (\<not> send_ok env \<longrightarrow>
                es = [Avcodec_send_frame (pts x) (int (length inp)) False,
                      Pd_error ''Error sending frame to codec''])"
proof -
  from assms obtain x1 fr1 where p: "prepare_frame (rtsp_convert rnd) x inp = Inr (x1, fr1)"
    and d: "encode_dispatch [] x1 fr1 env = Inr (x', es)"
    by (auto simp: rtspstreamer_tilde_perform_def split: sum.splits)
  from prepare_frame_fields [OF p] encode_dispatch_result [OF d]
  show ?thesis by auto
qed

subsection \<open>Connect and teardown sequences\<close>

lemma emit_simps [simp]:
  "emit es (r, x, es') = (r, x, es @ es')"
  by (simp add: emit_def)

lemma emit_if: "emit es (if c then a else b) = (if c then emit es a else emit es b)"
  by simp

lemma initialize_streaming_success:
  "initialize_streaming x env = (0, x', es) \<Longrightarrow>
     connected x' \<and> pts x' = pts x \<and> url x' = url x \<and> streaming_active x' = streaming_active x"
  by (auto simp: initialize_streaming_def Let_def emit_if connected_def with_buffer_def
      new_frame_def split: if_splits)

lemma initialize_streaming_pts:
  "pts (fst (snd (initialize_streaming x env))) = pts x
   \<and> url (fst (snd (initialize_streaming x env))) = url x
   \<and> streaming_active (fst (snd (initialize_streaming x env))) = streaming_active x"
  by (simp add: initialize_streaming_def Let_def emit_if)

lemma initialize_streaming_no_release:
  "e \<in> set (snd (snd (initialize_streaming x env))) \<Longrightarrow> releases e = None"
  by (auto simp: initialize_streaming_def Let_def emit_if split: if_splits)

lemma initialize_streaming_peak:
  "peak r 0 (snd (snd (initialize_streaming x env))) \<le> 1"
  by (cases r) (simp_all add: initialize_streaming_def Let_def emit_if held_def)

lemma held_Nil [simp]: "held r [] = 0"
  by (simp add: held_def)

lemma held_append: "held r (a @ b) = held r a + held r b"
  by (simp add: held_def)

lemma held_Cons: "held r (e # es) = held r [e] + held r es"
  by (simp add: held_def)

lemma held_neutral:
  "(\<And>e. e \<in> set es \<Longrightarrow> acquires e = None \<and> releases e = None) \<Longrightarrow> held r es = 0"
proof (induction es)
  case Nil
  show ?case by simp
next
  case (Cons e es)
  have "held r [e] = 0" using Cons.prems [of e] by (simp add: held_def)
  moreover have "held r es = 0" using Cons by simp
  ultimately show ?case using held_Cons [of r e es] by simp
qed

lemma peak_ge_start: "h \<le> peak r h es"
  by (induction es arbitrary: h) auto

lemma peak_append: "peak r h (a @ b) = max (peak r h a) (peak r (h + held r a) b)"
proof (induction a arbitrary: h)
  case Nil
  show ?case using peak_ge_start [of h r b] by simp
next
  case (Cons e a)
  show ?case
    using Cons [of "h + held r [e]"] by (simp add: held_Cons [of r e a] max.assoc add.assoc)
qed

lemma held_take_le_peak: "h + held r (take k es) \<le> peak r h es"
proof (induction es arbitrary: h k)
  case Nil
  show ?case by simp
next
  case (Cons e es)
  show ?case
  proof (cases k)
    case 0
    then show ?thesis using peak_ge_start [of h r "e # es"] by simp
  next
    case (Suc j)
    have "h + held r (take k (e # es)) = (h + held r [e]) + held r (take j es)"
      using Suc held_Cons [of r e "take j es"] by simp
    also have "\<dots> \<le> peak r (h + held r [e]) es" by (rule Cons.IH)
    finally show ?thesis by simp
  qed
qed

lemma held_le_peak: "h + held r es \<le> peak r h es"
  using held_take_le_peak [of h r "length es" es] by simp

lemma cleanup_streaming_connected:
  assumes "connected x" and "fmt_ctx x = Some f"
  shows "cleanup_streaming x
           = (x\<lparr>fmt_ctx := None, codec_ctx := None, frame := None\<rparr>, teardown_calls f)"
  using assms
  by (auto simp: cleanup_streaming_def connected_def teardown_calls_def split: option.splits)

lemma cleanup_streaming_state:
  "fst (cleanup_streaming x) = x\<lparr>fmt_ctx := None, codec_ctx := None, frame := None\<rparr>"
  by (cases "fmt_ctx x"; cases "codec_ctx x"; cases "frame x")
     (simp_all add: cleanup_streaming_def)

lemma teardown_calls_props:
  "(\<forall>e \<in> set (teardown_calls f). acquires e = None)
   \<and> Av_write_trailer \<in> set (teardown_calls f) \<and> Avformat_free_context \<in> set (teardown_calls f)
   \<and> Avcodec_free_context \<in> set (teardown_calls f) \<and> Av_frame_free \<in> set (teardown_calls f)
   \<and> (\<not> nofile f \<longrightarrow> Avio_closep \<in> set (teardown_calls f))"
  by (simp add: teardown_calls_def)

lemma teardown_calls_held:
  assumes "connected x" and "fmt_ctx x = Some f"
  shows "holds x r + held r (teardown_calls f) = 0 \<and> peak r (holds x r) (teardown_calls f) \<le> 1"
  using assms
  by (cases r) (auto simp: connected_def holds_def teardown_calls_def held_def)

lemma symbol_streaming_shape:
  assumes "streaming_active x" and "connected x" and "fmt_ctx x = Some f"
  shows "\<exists>rest. snd (rtmpstreamer_tilde_symbol x s env) = teardown_calls f @ rest
           \<and> ((\<exists>m. rest = [Post m])
                \<or> (\<exists>m l x1. rest = Post m # snd (snd (initialize_streaming x1 env)) @ [l]
                      \<and> ((\<exists>m'. l = Post m') \<or> (\<exists>m'. l = Pd_error m'))))"
  using assms(1) cleanup_streaming_connected [OF assms(2,3)]
  by (simp add: rtmpstreamer_tilde_symbol_def Let_def split_beta) blast

lemma symbol_streaming_calls:
  assumes "streaming_active x" and "connected x" and "fmt_ctx x = Some f"
  shows "\<exists>rest. snd (rtmpstreamer_tilde_symbol x s env) = teardown_calls f @ rest
           \<and> (\<forall>e \<in> set rest. releases e = None) \<and> (\<forall>r. peak r 0 rest \<le> 1)"
proof -
  from symbol_streaming_shape [OF assms, of s env] obtain rest
    where es: "snd (rtmpstreamer_tilde_symbol x s env) = teardown_calls f @ rest"
      and sh: "(\<exists>m. rest = [Post m])
                \<or> (\<exists>m l x1. rest = Post m # snd (snd (initialize_streaming x1 env)) @ [l]
                      \<and> ((\<exists>m'. l = Post m') \<or> (\<exists>m'. l = Pd_error m')))"
    by blast
  have post: "held r [Post m] = 0" "held r [Pd_error m] = 0" for r m
    by (simp_all add: held_def)
  from sh have "(\<forall>e \<in> set rest. releases e = None) \<and> (\<forall>r. peak r 0 rest \<le> 1)"
  proof
    assume "\<exists>m. rest = [Post m]"
    then show ?thesis using post by auto
  next
    assume "\<exists>m l x1. rest = Post m # snd (snd (initialize_streaming x1 env)) @ [l]
                      \<and> ((\<exists>m'. l = Post m') \<or> (\<exists>m'. l = Pd_error m'))"
    then obtain m l x1 where rest: "rest = Post m # snd (snd (initialize_streaming x1 env)) @ [l]"
      and l: "(\<exists>m'. l = Post m') \<or> (\<exists>m'. l = Pd_error m')"
      by blast
    let ?ei = "snd (snd (initialize_streaming x1 env))"
    have hl: "held r [l] = 0" and rl: "releases l = None" for r
      using l post by auto
    have rel: "\<forall>e \<in> set ?ei. releases e = None"
      using initialize_streaming_no_release by blast
    have pk: "peak r 0 rest \<le> 1" for r
    proof -
      have "0 + held r ?ei \<le> peak r 0 ?ei" by (rule held_le_peak)
      moreover have "peak r 0 ?ei \<le> 1" by (rule initialize_streaming_peak)
      ultimately show ?thesis using hl [of r] post(1) [of r m] by (simp add: rest peak_append)
    qed
    show ?thesis using rel rl pk by (simp add: rest)
  qed
  with es show ?thesis by blast
qed

text \<open>
  Claim C2, as amended. When the symbol method of the push variant runs on a streaming
  object, all the calls before its first acquiring call already contain the whole
  teardown of the previous session (trailer, transport close if a transport is open,
  release of the output context, of the encoder and of the frame) and leave none of its
  handles held; so at no point of the call is more than one handle of a kind held. The
  symbol method of the session variant calls neither a teardown nor an acquisition: it
  records the new URL, reports that the URL cannot be changed and leaves the handles
  as they are.
\<close>

theorem reconfiguration_teardown_first:
  "streaming_active x \<Longrightarrow> connected x \<Longrightarrow> rtmpstreamer_tilde_symbol x s env = (x', es) \<Longrightarrow>
     (let pre = takeWhile (\<lambda>e. acquires e = None) es in
        Av_write_trailer \<in> set pre \<and> Avformat_free_context \<in> set pre
        \<and> Avcodec_free_context \<in> set pre \<and> Av_frame_free \<in> set pre
        \<and> (holds x Transport = 1 \<longrightarrow> Avio_closep \<in> set pre)
        \<and> (\<forall>r. holds x r + held r pre = 0))
     \<and> (\<forall>k r. holds x r + held r (take k es) \<le> 1)
     \<and> snd (rtspstreamer_tilde_symbol y s) = [Pd_error ''Changing URL at runtime is not supported'']
     \<and> fst (rtspstreamer_tilde_symbol y s) = y\<lparr>url := s\<rparr>
     \<and> holds (fst (rtspstreamer_tilde_symbol y s)) = holds y"
proof -
  assume a: "streaming_active x" "connected x" and r: "rtmpstreamer_tilde_symbol x s env = (x', es)"
  from a(2) obtain f where f: "fmt_ctx x = Some f" and pb: "pb_open f = (\<not> nofile f)"
    by (auto simp: connected_def split: option.splits)
  from symbol_streaming_calls [OF a f, of s env] r obtain rest
    where es: "es = teardown_calls f @ rest" and rel: "\<forall>e \<in> set rest. releases e = None"
      and pk: "\<forall>r. peak r 0 rest \<le> 1"
    by auto
  note td = teardown_calls_props [of f]
  let ?P = "\<lambda>e. acquires e = None"
  have pre: "takeWhile ?P es = teardown_calls f @ takeWhile ?P rest"
    using td by (simp add: es takeWhile_append2)
  have neutral: "held r (takeWhile ?P rest) = 0" for r
  proof (rule held_neutral)
    fix e assume "e \<in> set (takeWhile ?P rest)"
    then have "e \<in> set rest \<and> ?P e" by (rule set_takeWhileD)
    then show "acquires e = None \<and> releases e = None" using rel by simp
  qed
  have zero: "holds x r + held r (takeWhile ?P es) = 0" for r
    using teardown_calls_held [OF a(2) f, of r] neutral [of r] by (simp add: pre held_append)
  have tr: "holds x Transport = 1 \<longrightarrow> \<not> nofile f"
    using f pb by (simp add: holds_def)
  have one: "holds x r + held r (take k es) \<le> 1" for k r
  proof -
    have "holds x r + held r (take k es) \<le> peak r (holds x r) es" by (rule held_take_le_peak)
    also have "\<dots> \<le> 1"
      using teardown_calls_held [OF a(2) f, of r] pk by (simp add: es peak_append)
    finally show ?thesis .
  qed
  have rtsp: "snd (rtspstreamer_tilde_symbol y s) = [Pd_error ''Changing URL at runtime is not supported'']
     \<and> fst (rtspstreamer_tilde_symbol y s) = y\<lparr>url := s\<rparr>
     \<and> holds (fst (rtspstreamer_tilde_symbol y s)) = holds y"
  proof -
    have "holds (y\<lparr>url := s\<rparr>) r = holds y r" for r
      by (cases r) (simp_all add: holds_def)
    then show ?thesis by (simp add: rtspstreamer_tilde_symbol_def fun_eq_iff)
  qed
  from rtsp have keep: "holds (y\<lparr>url := s\<rparr>) = holds y"
    by (simp add: rtspstreamer_tilde_symbol_def)
  show ?thesis
    using zero one rtsp keep td tr by (simp add: Let_def pre)
qed

subsection \<open>The concrete objects\<close>

lemma replicate_4: "replicate 4 v = [v, v, v, v]"
  by (simp add: eval_nat_numeral)

lemma streaming_a_eq:
  "streaming_a =
     \<lparr>url = Some ''rtmp://a/live'', fmt_ctx = Some \<lparr>nofile = False, pb_open = True\<rparr>,
      audio_st = Some \<lparr>index = 0\<rparr>, codec_ctx = Some \<lparr>frame_size = 4\<rparr>,
      frame = Some \<lparr>data = [Fin 0, Fin 0, Fin 0, Fin 0], nb_samples = 4, frame_pts = 0\<rparr>,
      pts = 0, streaming_active = True\<rparr>"
  by (simp add: streaming_a_def rtmpstreamer_tilde_symbol_def rtmpstreamer_tilde_new_def
      initialize_streaming_def all_ok_def s_name_def Let_def new_frame_def with_buffer_def
      frame_capacity_def replicate_4)

lemma session_a_eq:
  "session_a =
     \<lparr>url = Some ''rtsp://a/live'', fmt_ctx = Some \<lparr>nofile = False, pb_open = True\<rparr>,
      audio_st = Some \<lparr>index = 0\<rparr>, codec_ctx = Some \<lparr>frame_size = 4\<rparr>,
      frame = Some \<lparr>data = [0, 0, 0, 0], nb_samples = 4, frame_pts = 0\<rparr>, pts = 0\<rparr>"
  by (simp add: session_a_def rtsp_connect_def all_ok_def Let_def new_frame_def with_buffer_def
      frame_capacity_def replicate_4)

subsection \<open>Blocks\<close>

lemma rtsp_connect_success:
  "rtsp_connect x env = (0, x', es) \<Longrightarrow> connected x' \<and> pts x' = pts x \<and> url x' = url x"
  by (auto simp: rtsp_connect_def Let_def emit_if connected_def with_buffer_def new_frame_def
      split: if_splits)

lemma rtsp_connect_no_release:
  "e \<in> set (snd (snd (rtsp_connect x env))) \<Longrightarrow> releases e = None"
  by (auto simp: rtsp_connect_def Let_def emit_if split: if_splits)

lemma rtmp_perform_streaming:
  assumes "streaming_active x" and "connected x" and "frame x = Some fr"
  shows "(length inp \<le> length (data fr) \<longrightarrow>
            (\<exists>x' fr' es. rtmpstreamer_tilde_perform x inp env = Inr (x', es) \<and> frame x' = Some fr'
               \<and> data fr' = map clamp_sample inp @ drop (length inp) (data fr)
               \<and> nb_samples fr' = int (length inp)))
         \<and> (length (data fr) < length inp \<longrightarrow>
              rtmpstreamer_tilde_perform x inp env = Inl Out_of_bounds)"
proof -
  let ?fr = "fr\<lparr>data := map clamp_sample inp @ drop (length inp) (data fr),
                 nb_samples := int (length inp), frame_pts := pts x\<rparr>"
  let ?x = "x\<lparr>frame := Some ?fr, pts := pts x + word_of_nat (length inp)\<rparr>"
  note p = prepare_frame_result [of rtmp_convert clamp_sample x fr inp, OF _ assms(3)]
  have "audio_st ?x \<noteq> None" using assms(2) by (simp add: connected_def)
  from encode_dispatch_total [OF this, of "''[rtmpstreamer~] ''" ?fr env]
  obtain es where "encode_dispatch ''[rtmpstreamer~] '' ?x ?fr env = Inr (?x, es)" by blast
  then show ?thesis
    using assms(1) p by (simp add: rtmpstreamer_tilde_perform_def rtmp_convert_def)
qed

lemma prepare_frame_fits:
  assumes "\<And>s. s \<in> set inp \<Longrightarrow> \<exists>w. conv s = Inr w" and "frame x = Some fr"
  shows "(length inp \<le> length (data fr) \<longrightarrow> (\<exists>x' fr'. prepare_frame conv x inp = Inr (x', fr')))
         \<and> (length (data fr) < length inp \<longrightarrow> prepare_frame conv x inp = Inl Out_of_bounds)"
  using write_samples_fits [of inp conv 0 "data fr", OF assms(1)] assms(2)
  by (auto simp: prepare_frame_def Let_def)

lemma rtsp_perform_streaming:
  assumes "mono rnd" "rnd 32767 = 32767" "rnd (- 32767) = - 32767"
    and "connected y" and "frame y = Some fr" and "NaN \<notin> set inp"
  shows "(length inp \<le> length (data fr) \<longrightarrow>
            (\<exists>y' fr' es. rtspstreamer_tilde_perform rnd y inp env = Inr (y', es) \<and> frame y' = Some fr'
               \<and> length (data fr') = length (data fr)
               \<and> (\<forall>i<length inp. \<exists>v. clamp_sample (inp ! i) = Fin v
                      \<and> data fr' ! i = word_of_int (trunc (rnd (v * 32767))))
               \<and> (\<forall>j<length (data fr). length inp \<le> j \<longrightarrow> data fr' ! j = data fr ! j)
               \<and> nb_samples fr' = int (length inp)))
         \<and> (length (data fr) < length inp \<longrightarrow>
              rtspstreamer_tilde_perform rnd y inp env = Inl Out_of_bounds)"
proof -
  have tot: "\<exists>w. rtsp_convert rnd s = Inr w" if "s \<in> set inp" for s
    using that assms(6) by (intro rtsp_convert_total [OF assms(1-3)]) auto
  note fits = prepare_frame_fits [of inp "rtsp_convert rnd" y fr, OF tot assms(5)]
  have long: "length (data fr) < length inp \<longrightarrow>
              rtspstreamer_tilde_perform rnd y inp env = Inl Out_of_bounds"
    using fits by (simp add: rtspstreamer_tilde_perform_def)
  have short: "\<exists>y' fr' es. rtspstreamer_tilde_perform rnd y inp env = Inr (y', es) \<and> frame y' = Some fr'
               \<and> length (data fr') = length (data fr)
               \<and> (\<forall>i<length inp. \<exists>v. clamp_sample (inp ! i) = Fin v
                      \<and> data fr' ! i = word_of_int (trunc (rnd (v * 32767))))
               \<and> (\<forall>j<length (data fr). length inp \<le> j \<longrightarrow> data fr' ! j = data fr ! j)
               \<and> nb_samples fr' = int (length inp)"
    if le: "length inp \<le> length (data fr)"
  proof -
    from fits le obtain y1 fr1 where p: "prepare_frame (rtsp_convert rnd) y inp = Inr (y1, fr1)"
      by blast
    note f = prepare_frame_fields [OF p]
    from f have y1: "y1 = y\<lparr>frame := Some fr1, pts := pts y + word_of_nat (length inp)\<rparr>" by simp
    have "audio_st y1 \<noteq> None" using assms(4) by (simp add: y1 connected_def)
    from encode_dispatch_total [OF this, of "[]" fr1 env]
    obtain es where d: "encode_dispatch [] y1 fr1 env = Inr (y1, es)" by blast
    have run: "rtspstreamer_tilde_perform rnd y inp env = Inr (y1, es)"
      by (simp add: rtspstreamer_tilde_perform_def p d)
    have val: "\<exists>v. clamp_sample (inp ! i) = Fin v
                 \<and> data fr1 ! i = word_of_int (trunc (rnd (v * 32767)))" if i: "i < length inp" for i
    proof -
      from i assms(6) have "inp ! i \<noteq> NaN" by (metis nth_mem)
      from clamp_sample_Fin [OF this] obtain v where v: "clamp_sample (inp ! i) = Fin v" by blast
      from f i have "rtsp_convert rnd (inp ! i) = Inr (data fr1 ! i)" by simp
      with rtsp_convert_value [OF assms(1-3) v] v show ?thesis by simp
    qed
    from f assms(5) have keep: "length (data fr1) = length (data fr)"
      "\<forall>j. length inp \<le> j \<longrightarrow> data fr1 ! j = data fr ! j" "nb_samples fr1 = int (length inp)"
      by auto
    from run val keep show ?thesis by (auto simp: y1)
  qed
  from short long show ?thesis by blast
qed

lemma rtsp_perform_overlong:
  assumes "frame y = Some fr" and "length (data fr) < length inp"
  shows "\<exists>f. rtspstreamer_tilde_perform rnd y inp env = Inl f"
proof (cases "rtspstreamer_tilde_perform rnd y inp env")
  case (Inl f)
  then show ?thesis by blast
next
  case (Inr r)
  obtain y' es where r: "r = (y', es)" by (cases r)
  from Inr r obtain y1 fr1 where p: "prepare_frame (rtsp_convert rnd) y inp = Inr (y1, fr1)"
    by (auto simp: rtspstreamer_tilde_perform_def split: sum.splits)
  from prepare_frame_fields [OF p] assms show ?thesis by auto
qed

text \<open>
  Claim C1. On a streaming object the perform function compares the block length with
  nothing: a block no longer than the frame's buffer is written whole into the frame
  owned by the object, each sample converted, and \<open>nb_samples\<close> becomes the block
  length; a block longer than the buffer runs the store past the end of the buffer.
  The bound on the block length is thus the only thing between the loop and the fault.
  (In the session variant the cast of a NaN is undefined before any store is: there a
  block with a NaN ends in that fault, and an overlong block in one fault or the other.)
\<close>

theorem frame_assembler_unchecked:
  "mono rnd \<Longrightarrow> rnd 32767 = 32767 \<Longrightarrow> rnd (- 32767) = - 32767 \<Longrightarrow>
   streaming_active x \<Longrightarrow> connected x \<Longrightarrow> frame x = Some fr \<Longrightarrow>
   connected y \<Longrightarrow> frame y = Some fr16 \<Longrightarrow>
     (length inp \<le> length (data fr) \<longrightarrow>
        (\<exists>x' fr' es. rtmpstreamer_tilde_perform x inp env = Inr (x', es) \<and> frame x' = Some fr'
           \<and> data fr' = map clamp_sample inp @ drop (length inp) (data fr)
           \<and> nb_samples fr' = int (length inp)))
     \<and> (length (data fr) < length inp \<longrightarrow>
          rtmpstreamer_tilde_perform x inp env = Inl Out_of_bounds)
     \<and> (NaN \<notin> set inp \<and> length inp \<le> length (data fr16) \<longrightarrow>
          (\<exists>y' fr' es. rtspstreamer_tilde_perform rnd y inp env = Inr (y', es) \<and> frame y' = Some fr'
             \<and> length (data fr') = length (data fr16)
             \<and> (\<forall>i<length inp. \<exists>v. clamp_sample (inp ! i) = Fin v
                    \<and> data fr' ! i = word_of_int (trunc (rnd (v * 32767))))
             \<and> (\<forall>j<length (data fr16). length inp \<le> j \<longrightarrow> data fr' ! j = data fr16 ! j)
             \<and> nb_samples fr' = int (length inp)))
     \<and> (NaN \<notin> set inp \<and> length (data fr16) < length inp \<longrightarrow>
          rtspstreamer_tilde_perform rnd y inp env = Inl Out_of_bounds)
     \<and> (length (data fr16) < length inp \<longrightarrow>
          (\<exists>f. rtspstreamer_tilde_perform rnd y inp env = Inl f))"
  using rtmp_perform_streaming [of x fr inp env] rtsp_perform_streaming [of rnd y fr16 inp env]
    rtsp_perform_overlong [of y fr16 inp rnd env]
  by blast

text \<open>
  Claim C4. On a push object that is not streaming the perform function returns the
  object unchanged and calls nothing, neither the encoder nor the transport. A session
  object is handed to the host only by a connect sequence that succeeded, so it has no
  state other than streaming.
\<close>

theorem idle_block_is_noop:
  "(\<not> streaming_active x \<longrightarrow> rtmpstreamer_tilde_perform x inp env = Inr (x, []))
   \<and> (\<forall>y es. rtspstreamer_tilde_new s ienv = (Some y, es) \<longrightarrow> connected y)"
proof -
  have "connected y" if "rtspstreamer_tilde_new s ienv = (Some y, es)" for y es
  proof -
    let ?x0 = "\<lparr>url = Some s, fmt_ctx = None, audio_st = None, codec_ctx = None,
                frame = None, pts = 0\<rparr> :: rtspstreamer"
    from that have "rtsp_connect ?x0 ienv = (0, y, es)"
      by (auto simp: rtspstreamer_tilde_new_def Let_def split: prod.splits if_splits)
    then show ?thesis using rtsp_connect_success by blast
  qed
  then show ?thesis by (simp add: rtmpstreamer_tilde_perform_def)
qed

text \<open>
  Claim C8. Whatever the encoder and the transport answer during a block, the perform
  function leaves the streaming flag and the handles as they were and calls no teardown;
  a failed submission, drain or transmission is reported once and ends the block; and
  every packet given to the transport is released by the next call, whether the
  transmission succeeded or not.
\<close>

theorem block_errors_keep_streaming:
  "(streaming_active x \<and> rtmpstreamer_tilde_perform x inp env = Inr (x', es) \<longrightarrow>
      streaming_active x' \<and> url x' = url x \<and> fmt_ctx x' = fmt_ctx x \<and> audio_st x' = audio_st x
      \<and> codec_ctx x' = codec_ctx x \<and> frame x' \<noteq> None
      \<and> (\<forall>e \<in> set es. \<not> is_teardown e) \<and> failure_ends_block es \<and> unref_after_write es
      \<and> (\<not> send_ok env \<longrightarrow>
            es = [Avcodec_send_frame (pts x) (int (length inp)) False,
                  Pd_error ''[rtmpstreamer~] Error sending frame to codec'']))
   \<and> (rtspstreamer_tilde_perform rnd y inp' env' = Inr (y', es') \<longrightarrow>
      url y' = url y \<and> fmt_ctx y' = fmt_ctx y \<and> audio_st y' = audio_st y
      \<and> codec_ctx y' = codec_ctx y \<and> frame y' \<noteq> None
      \<and> (\<forall>e \<in> set es'. \<not> is_teardown e) \<and> failure_ends_block es' \<and> unref_after_write es'
      \<and> (\<not> send_ok env' \<longrightarrow>
            es' = [Avcodec_send_frame (pts y) (int (length inp')) False,
                   Pd_error ''Error sending frame to codec'']))"
proof (rule conjI; rule impI)
  assume "streaming_active x \<and> rtmpstreamer_tilde_perform x inp env = Inr (x', es)"
  then have "rtmpstreamer_tilde_perform x inp env = Inr (x', es)" "streaming_active x" by simp_all
  from rtmp_perform_result [OF this]
  show "streaming_active x' \<and> url x' = url x \<and> fmt_ctx x' = fmt_ctx x \<and> audio_st x' = audio_st x
      \<and> codec_ctx x' = codec_ctx x \<and> frame x' \<noteq> None
      \<and> (\<forall>e \<in> set es. \<not> is_teardown e) \<and> failure_ends_block es \<and> unref_after_write es
      \<and> (\<not> send_ok env \<longrightarrow>
            es = [Avcodec_send_frame (pts x) (int (length inp)) False,
                  Pd_error ''[rtmpstreamer~] Error sending frame to codec''])"
    using \<open>streaming_active x\<close> by auto
next
  assume "rtspstreamer_tilde_perform rnd y inp' env' = Inr (y', es')"
  from rtsp_perform_result [OF this]
  show "url y' = url y \<and> fmt_ctx y' = fmt_ctx y \<and> audio_st y' = audio_st y
      \<and> codec_ctx y' = codec_ctx y \<and> frame y' \<noteq> None
      \<and> (\<forall>e \<in> set es'. \<not> is_teardown e) \<and> failure_ends_block es' \<and> unref_after_write es'
      \<and> (\<not> send_ok env' \<longrightarrow>
            es' = [Avcodec_send_frame (pts y) (int (length inp')) False,
                   Pd_error ''Error sending frame to codec''])"
    by auto
qed

text \<open>
  The streaming flag is set only by a connect sequence that succeeded, and a block keeps
  the pointers set: a streaming object is connected.
\<close>

lemma symbol_state:
  "fst (rtmpstreamer_tilde_symbol x s env) =
     (let x1 = (if streaming_active x
                then (fst (cleanup_streaming x))\<lparr>streaming_active := False\<rparr> else x)\<lparr>url := s\<rparr>
      in if s \<noteq> None \<and> s_name s \<noteq> [] then
           (if fst (initialize_streaming x1 env) = 0
            then (fst (snd (initialize_streaming x1 env)))\<lparr>streaming_active := True\<rparr>
            else fst (snd (initialize_streaming x1 env)))
         else x1)"
  by (simp add: rtmpstreamer_tilde_symbol_def Let_def split_beta)

lemma symbol_streaming_connected:
  assumes "streaming_active (fst (rtmpstreamer_tilde_symbol x s env))"
  shows "connected (fst (rtmpstreamer_tilde_symbol x s env))"
proof -
  define x1 where "x1 = (if streaming_active x
                then (fst (cleanup_streaming x))\<lparr>streaming_active := False\<rparr> else x)\<lparr>url := s\<rparr>"
  have off: "streaming_active x1 \<Longrightarrow> False"
    by (cases "streaming_active x") (simp_all add: x1_def)
  have res: "fst (rtmpstreamer_tilde_symbol x s env) =
     (if s \<noteq> None \<and> s_name s \<noteq> [] then
           (if fst (initialize_streaming x1 env) = 0
            then (fst (snd (initialize_streaming x1 env)))\<lparr>streaming_active := True\<rparr>
            else fst (snd (initialize_streaming x1 env)))
         else x1)"
    unfolding x1_def symbol_state [of x s env] Let_def ..
  obtain ret x2 es where i: "initialize_streaming x1 env = (ret, x2, es)"
    by (cases "initialize_streaming x1 env") auto
  have keep: "streaming_active x2 = streaming_active x1"
    using initialize_streaming_pts [of x1 env] i by simp
  show ?thesis
  proof (cases "s \<noteq> None \<and> s_name s \<noteq> [] \<and> ret = 0")
    case True
    with i have "connected x2" using initialize_streaming_success by blast
    then show ?thesis using True i by (simp add: res connected_def)
  next
    case False
    with assms res i keep have "streaming_active x1" by (auto split: if_splits)
    with off show ?thesis by simp
  qed
qed

lemma perform_keeps_connected:
  assumes "rtmpstreamer_tilde_perform x inp env = Inr (x', es)" and "connected x"
  shows "connected x'"
proof (cases "streaming_active x")
  case True
  from rtmp_perform_result [OF assms(1) True] assms(2) show ?thesis
    by (auto simp: connected_def)
next
  case False
  with assms show ?thesis by (simp add: rtmpstreamer_tilde_perform_def)
qed




lemma rtsp_perform_total:
  assumes "mono rnd" "rnd 32767 = 32767" "rnd (- 32767) = - 32767"
    and "connected y" and "frame y = Some fr" and "NaN \<notin> set inp"
    and "length inp \<le> length (data fr)"
  shows "\<exists>y' es. rtspstreamer_tilde_perform rnd y inp env = Inr (y', es)"
  using rtsp_perform_streaming [OF assms(1-6), of env] assms(7) by blast


text \<open>
  Claim C10. In the session variant every sample of a block the perform function
  accepts is stored in the frame as the truncation toward zero of the product of the
  clamped sample, a number between -1 and 1, with 32767: the stored 16-bit value lies
  between -32767 and 32767, and -32768 is never stored. Every block without a NaN that
  fits the buffer of a connected object is accepted. This holds for every rounding of
  the product that is monotone and leaves 32767 and -32767 as they are (each IEEE
  rounding mode is such a rounding).
\<close>

theorem rtsp_sample_range:
  "mono rnd \<Longrightarrow> rnd 32767 = 32767 \<Longrightarrow> rnd (- 32767) = - 32767 \<Longrightarrow>
   (rtspstreamer_tilde_perform rnd y inp env = Inr (y', es) \<longrightarrow>
      (\<exists>fr'. frame y' = Some fr' \<and> length inp \<le> length (data fr')
         \<and> (\<forall>i<length inp.
               (\<exists>v. clamp_sample (inp ! i) = Fin v \<and> - 1 \<le> v \<and> v \<le> 1
                    \<and> sint (data fr' ! i) = trunc (rnd (v * 32767)))
               \<and> - 32767 \<le> sint (data fr' ! i) \<and> sint (data fr' ! i) \<le> 32767
               \<and> sint (data fr' ! i) \<noteq> - 32768)))
   \<and> (connected y \<and> NaN \<notin> set inp
        \<and> (\<exists>fr. frame y = Some fr \<and> length inp \<le> length (data fr)) \<longrightarrow>
        (\<exists>y1 es1. rtspstreamer_tilde_perform rnd y inp env = Inr (y1, es1)))"
proof -
  assume a: "mono rnd" "rnd 32767 = 32767" "rnd (- 32767) = - 32767"
  have range: "\<exists>fr'. frame y' = Some fr' \<and> length inp \<le> length (data fr')
         \<and> (\<forall>i<length inp.
               (\<exists>v. clamp_sample (inp ! i) = Fin v \<and> - 1 \<le> v \<and> v \<le> 1
                    \<and> sint (data fr' ! i) = trunc (rnd (v * 32767)))
               \<and> - 32767 \<le> sint (data fr' ! i) \<and> sint (data fr' ! i) \<le> 32767
               \<and> sint (data fr' ! i) \<noteq> - 32768)"
    if h: "rtspstreamer_tilde_perform rnd y inp env = Inr (y', es)"
  proof -
    from rtsp_perform_result [OF h] obtain fr' where fr: "frame y' = Some fr'"
      and len: "length inp \<le> length (data fr')"
      and val: "\<forall>k<length inp. rtsp_convert rnd (inp ! k) = Inr (data fr' ! k)"
      by auto
    have "(\<exists>v. clamp_sample (inp ! i) = Fin v \<and> - 1 \<le> v \<and> v \<le> 1
                    \<and> sint (data fr' ! i) = trunc (rnd (v * 32767)))
               \<and> - 32767 \<le> sint (data fr' ! i) \<and> sint (data fr' ! i) \<le> 32767
               \<and> sint (data fr' ! i) \<noteq> - 32768"
      if i: "i < length inp" for i
    proof -
      from val i have c: "rtsp_convert rnd (inp ! i) = Inr (data fr' ! i)" by simp
      then have "inp ! i \<noteq> NaN" by (auto simp: rtsp_convert_NaN)
      from clamp_sample_Fin [OF this] obtain v where v: "clamp_sample (inp ! i) = Fin v" by blast
      from rtsp_convert_value [OF a v] c
      have "- 1 \<le> v \<and> v \<le> 1 \<and> sint (data fr' ! i) = trunc (rnd (v * 32767))
              \<and> - 32767 \<le> sint (data fr' ! i) \<and> sint (data fr' ! i) \<le> 32767"
        by auto
      with v show ?thesis by auto
    qed
    with fr len show ?thesis by blast
  qed
  have tot: "connected y \<and> NaN \<notin> set inp
        \<and> (\<exists>fr. frame y = Some fr \<and> length inp \<le> length (data fr)) \<longrightarrow>
        (\<exists>y1 es1. rtspstreamer_tilde_perform rnd y inp env = Inr (y1, es1))"
    using rtsp_perform_total [OF a] by blast
  from range tot show ?thesis by blast
qed

subsection \<open>The presentation clock\<close>

lemma submitted_append: "submitted (a @ b) = submitted a @ submitted b"
  by (induction a rule: submitted.induct) simp_all

lemma symbol_pts: "pts (fst (rtmpstreamer_tilde_symbol x s env)) = pts x"
  by (simp add: rtmpstreamer_tilde_symbol_def Let_def split_beta cleanup_streaming_state
      initialize_streaming_pts)

lemma rtmp_blocks_Cons:
  assumes "rtmp_blocks x ((inp, env) # bs) = Inr (x', es)"
  obtains x1 es1 es2 where "rtmpstreamer_tilde_perform x inp env = Inr (x1, es1)"
    and "rtmp_blocks x1 bs = Inr (x', es2)" and "es = es1 @ es2"
  using assms by (auto split: sum.splits)

lemma rtmp_blocks_clock:
  "streaming_active x \<Longrightarrow> rtmp_blocks x bs = Inr (x', es) \<Longrightarrow>
     streaming_active x' \<and> length (submitted es) = length bs
     \<and> pts x' = pts x + word_of_nat (sum_list (map (\<lambda>b. length (fst b)) bs))
     \<and> (\<forall>k<length bs.
           fst (submitted es ! k) = pts x + word_of_nat (sum_list (map (\<lambda>b. length (fst b)) (take k bs))))"
proof (induction bs arbitrary: x es)
  case Nil
  then show ?case by simp
next
  case (Cons b bs)
  obtain inp env where b: "b = (inp, env)" by (cases b)
  from Cons.prems(2) [unfolded b] obtain x1 es1 es2
    where p: "rtmpstreamer_tilde_perform x inp env = Inr (x1, es1)"
      and r: "rtmp_blocks x1 bs = Inr (x', es2)" and es: "es = es1 @ es2"
    by (rule rtmp_blocks_Cons)
  from rtmp_perform_result [OF p Cons.prems(1)]
  have s1: "submitted es1 = [(pts x, int (length inp))]"
    and x1: "pts x1 = pts x + word_of_nat (length inp)" "streaming_active x1"
    using Cons.prems(1) by auto
  note ih = Cons.IH [OF x1(2) r]
  have sub: "submitted es = (pts x, int (length inp)) # submitted es2"
    by (simp add: es submitted_append s1)
  have nth: "fst (submitted es ! k)
               = pts x + word_of_nat (sum_list (map (\<lambda>b. length (fst b)) (take k (b # bs))))"
    if "k < length (b # bs)" for k
  proof (cases k)
    case 0
    then show ?thesis by (simp add: sub)
  next
    case (Suc j)
    with that have "j < length bs" by simp
    with ih have "fst (submitted es2 ! j)
                    = pts x1 + word_of_nat (sum_list (map (\<lambda>b. length (fst b)) (take j bs)))"
      by blast
    then show ?thesis by (simp add: sub Suc b x1(1))
  qed
  from ih nth show ?case by (simp add: sub b x1(1))
qed

lemma sint_of_nat_64: "n < 2 ^ 63 \<Longrightarrow> sint (word_of_nat n :: 64 word) = int n"
proof -
  assume "n < 2 ^ 63"
  then have "int n < 2 ^ 63" by (metis of_nat_less_iff of_nat_numeral of_nat_power)
  then show ?thesis
    by (simp add: signed_of_nat signed_take_bit_int_eq_self)
qed

lemma sum_list_take_le: "sum_list (take k (ns :: nat list)) \<le> sum_list ns"
proof -
  have "sum_list ns = sum_list (take k ns) + sum_list (drop k ns)"
    by (metis append_take_drop_id sum_list_append)
  then show ?thesis by simp
qed

lemma rtsp_blocks_Cons:
  assumes "rtsp_blocks rnd x ((inp, env) # bs) = Inr (x', es)"
  obtains x1 es1 es2 where "rtspstreamer_tilde_perform rnd x inp env = Inr (x1, es1)"
    and "rtsp_blocks rnd x1 bs = Inr (x', es2)" and "es = es1 @ es2"
  using assms by (auto split: sum.splits)

lemma rtsp_blocks_clock:
  "rtsp_blocks rnd x bs = Inr (x', es) \<Longrightarrow>
     length (submitted es) = length bs
     \<and> pts x' = pts x + word_of_nat (sum_list (map (\<lambda>b. length (fst b)) bs))
     \<and> (\<forall>k<length bs.
           fst (submitted es ! k) = pts x + word_of_nat (sum_list (map (\<lambda>b. length (fst b)) (take k bs))))"
proof (induction bs arbitrary: x es)
  case Nil
  then show ?case by simp
next
  case (Cons b bs)
  obtain inp env where b: "b = (inp, env)" by (cases b)
  from Cons.prems(1) [unfolded b] obtain x1 es1 es2
    where p: "rtspstreamer_tilde_perform rnd x inp env = Inr (x1, es1)"
      and r: "rtsp_blocks rnd x1 bs = Inr (x', es2)" and es: "es = es1 @ es2"
    by (rule rtsp_blocks_Cons)
  from rtsp_perform_result [OF p]
  have s1: "submitted es1 = [(pts x, int (length inp))]"
    and x1: "pts x1 = pts x + word_of_nat (length inp)"
    by auto
  note ih = Cons.IH [OF r]
  have sub: "submitted es = (pts x, int (length inp)) # submitted es2"
    by (simp add: es submitted_append s1)
  have nth: "fst (submitted es ! k)
               = pts x + word_of_nat (sum_list (map (\<lambda>b. length (fst b)) (take k (b # bs))))"
    if "k < length (b # bs)" for k
  proof (cases k)
    case 0
    then show ?thesis by (simp add: sub)
  next
    case (Suc j)
    with that have "j < length bs" by simp
    with ih have "fst (submitted es2 ! j)
                    = pts x1 + word_of_nat (sum_list (map (\<lambda>b. length (fst b)) (take j bs)))"
      by blast
    then show ?thesis by (simp add: sub Suc b x1)
  qed
  from ih nth show ?case by (simp add: sub b x1)
qed

lemma stamps_signed:
  assumes "\<forall>k<length bs.
             fst (submitted es ! k) = p + word_of_nat (sum_list (map (\<lambda>b. length (fst b)) (take k bs)))"
    and "p = 0" and "sum_list (map (\<lambda>b. length (fst b)) bs) < 2 ^ 63" and "k < length bs"
  shows "sint (fst (submitted es ! k)) = int (sum_list (map (\<lambda>b. length (fst b)) (take k bs)))"
proof -
  have "sum_list (map (\<lambda>b. length (fst b)) (take k bs)) \<le> sum_list (map (\<lambda>b. length (fst b)) bs)"
    using sum_list_take_le [of k "map (\<lambda>b. length (fst b)) bs"] by (simp add: take_map)
  with assms(3) have "sum_list (map (\<lambda>b. length (fst b)) (take k bs)) < 2 ^ 63" by simp
  then show ?thesis using assms(1,2,4) by (simp add: sint_of_nat_64)
qed

lemma rtsp_new_pts:
  assumes "rtspstreamer_tilde_new s1 ienv = (Some y, es1)"
  shows "pts y = 0"
proof -
  let ?x0 = "\<lparr>url = Some s1, fmt_ctx = None, audio_st = None, codec_ctx = None,
              frame = None, pts = 0\<rparr> :: rtspstreamer"
  from assms have "rtsp_connect ?x0 ienv = (0, y, es1)"
    by (auto simp: rtspstreamer_tilde_new_def Let_def split: prod.splits if_splits)
  from rtsp_connect_success [OF this] show ?thesis by simp
qed

text \<open>
  Claim C5, as amended. The clock is 0 when an object is created; the symbol method
  (teardown and connect, in the push variant) and the teardown leave it as it is. In
  both variants, for consecutive blocks on a streaming object, the frame submitted for
  a block carries the clock's value before the first of them plus the lengths of the
  blocks before it, and the clock ends advanced by the lengths of all of them (in
  64-bit arithmetic; as integers when the clock started at 0 and the lengths sum to
  less than \<open>2^63\<close>).
\<close>

theorem clock_runs_from_creation:
  "pts (fst (rtmpstreamer_tilde_new s0)) = 0
   \<and> (\<forall>y0 es0. rtspstreamer_tilde_new s1 ienv = (Some y0, es0) \<longrightarrow> pts y0 = 0)
   \<and> pts (fst (rtmpstreamer_tilde_symbol z s env)) = pts z
   \<and> pts (fst (cleanup_streaming z)) = pts z
   \<and> pts (fst (rtspstreamer_tilde_symbol w s)) = pts w
   \<and> (streaming_active x \<and> rtmp_blocks x bs = Inr (x', es) \<longrightarrow>
        length (submitted es) = length bs
        \<and> pts x' = pts x + word_of_nat (sum_list (map (\<lambda>b. length (fst b)) bs))
        \<and> (\<forall>k<length bs.
              fst (submitted es ! k)
                = pts x + word_of_nat (sum_list (map (\<lambda>b. length (fst b)) (take k bs))))
        \<and> (pts x = 0 \<and> sum_list (map (\<lambda>b. length (fst b)) bs) < 2 ^ 63 \<longrightarrow>
             (\<forall>k<length bs.
                sint (fst (submitted es ! k)) = int (sum_list (map (\<lambda>b. length (fst b)) (take k bs))))))
   \<and> (rtsp_blocks rnd y bs' = Inr (y', es') \<longrightarrow>
        length (submitted es') = length bs'
        \<and> pts y' = pts y + word_of_nat (sum_list (map (\<lambda>b. length (fst b)) bs'))
        \<and> (\<forall>k<length bs'.
              fst (submitted es' ! k)
                = pts y + word_of_nat (sum_list (map (\<lambda>b. length (fst b)) (take k bs'))))
        \<and> (pts y = 0 \<and> sum_list (map (\<lambda>b. length (fst b)) bs') < 2 ^ 63 \<longrightarrow>
             (\<forall>k<length bs'.
                sint (fst (submitted es' ! k)) = int (sum_list (map (\<lambda>b. length (fst b)) (take k bs'))))))"
proof -
  have new: "pts (fst (rtmpstreamer_tilde_new s0)) = 0"
    by (simp add: rtmpstreamer_tilde_new_def Let_def)
  have rtsp: "\<forall>y0 es0. rtspstreamer_tilde_new s1 ienv = (Some y0, es0) \<longrightarrow> pts y0 = 0"
    using rtsp_new_pts by blast
  have cl: "pts (fst (cleanup_streaming z)) = pts z"
    by (simp add: cleanup_streaming_state)
  have sy: "pts (fst (rtspstreamer_tilde_symbol w s)) = pts w"
    by (simp add: rtspstreamer_tilde_symbol_def)
  have run: "length (submitted es) = length bs
        \<and> pts x' = pts x + word_of_nat (sum_list (map (\<lambda>b. length (fst b)) bs))
        \<and> (\<forall>k<length bs.
              fst (submitted es ! k)
                = pts x + word_of_nat (sum_list (map (\<lambda>b. length (fst b)) (take k bs))))
        \<and> (pts x = 0 \<and> sum_list (map (\<lambda>b. length (fst b)) bs) < 2 ^ 63 \<longrightarrow>
             (\<forall>k<length bs.
                sint (fst (submitted es ! k)) = int (sum_list (map (\<lambda>b. length (fst b)) (take k bs)))))"
    if a: "streaming_active x \<and> rtmp_blocks x bs = Inr (x', es)"
  proof -
    from a have c: "length (submitted es) = length bs
        \<and> pts x' = pts x + word_of_nat (sum_list (map (\<lambda>b. length (fst b)) bs))
        \<and> (\<forall>k<length bs.
              fst (submitted es ! k)
                = pts x + word_of_nat (sum_list (map (\<lambda>b. length (fst b)) (take k bs))))"
      using rtmp_blocks_clock [of x bs x' es] by simp
    then have "\<forall>k<length bs.
              fst (submitted es ! k)
                = pts x + word_of_nat (sum_list (map (\<lambda>b. length (fst b)) (take k bs)))"
      by simp
    from stamps_signed [OF this] c show ?thesis by blast
  qed
  have run': "length (submitted es') = length bs'
        \<and> pts y' = pts y + word_of_nat (sum_list (map (\<lambda>b. length (fst b)) bs'))
        \<and> (\<forall>k<length bs'.
              fst (submitted es' ! k)
                = pts y + word_of_nat (sum_list (map (\<lambda>b. length (fst b)) (take k bs'))))
        \<and> (pts y = 0 \<and> sum_list (map (\<lambda>b. length (fst b)) bs') < 2 ^ 63 \<longrightarrow>
             (\<forall>k<length bs'.
                sint (fst (submitted es' ! k)) = int (sum_list (map (\<lambda>b. length (fst b)) (take k bs')))))"
    if a: "rtsp_blocks rnd y bs' = Inr (y', es')"
  proof -
    note c = rtsp_blocks_clock [OF a]
    then have "\<forall>k<length bs'.
              fst (submitted es' ! k)
                = pts y + word_of_nat (sum_list (map (\<lambda>b. length (fst b)) (take k bs')))"
      by simp
    from stamps_signed [OF this] c show ?thesis by blast
  qed
  from new rtsp symbol_pts [of z s env] cl sy run run' show ?thesis by blast
qed

subsection \<open>Teardown\<close>

lemma rtsp_free_state:
  "fst (rtspstreamer_tilde_free y)
     = y\<lparr>fmt_ctx := map_option (\<lambda>f. if \<not> nofile f then f\<lparr>pb_open := False\<rparr> else f) (fmt_ctx y),
          codec_ctx := None, frame := None\<rparr>"
  by (cases "fmt_ctx y"; cases "codec_ctx y"; cases "frame y")
     (simp_all add: rtspstreamer_tilde_free_def Let_def)

lemma rtsp_free_connected:
  assumes "connected y" and "fmt_ctx y = Some f"
  shows "snd (rtspstreamer_tilde_free y)
           = Av_write_trailer # (if \<not> nofile f then [Avio_closep] else [])
               @ [Avformat_free_context, Av_channel_layout_uninit, Avcodec_free_context,
                  Av_channel_layout_uninit, Av_frame_free, Avformat_network_deinit]"
  using assms by (auto simp: rtspstreamer_tilde_free_def connected_def Let_def)

text \<open>
  Claim C7, as amended. \<open>cleanup_streaming\<close> sets the three owned pointers to
  \<open>NULL\<close> and changes no other field: the clock keeps its value and \<open>audio_st\<close> is
  not cleared. On a connected object it writes the trailer, closes the transport if the
  format has one, and releases the output context, the encoder and the frame, so that
  nothing the object held stays held. Run again on its own result, or on an object with
  no handles, it releases nothing and changes nothing. The destructor of the session
  variant makes the same releasing calls on a connected object; it leaves \<open>codec_ctx\<close>
  and \<open>frame\<close> \<open>NULL\<close>, but \<open>fmt_ctx\<close> stays set if it was, and the clock keeps its
  value; on an object with no handles it releases nothing and changes nothing.
\<close>

theorem teardown_releases_keeps_clock:
  "fst (cleanup_streaming x) = x\<lparr>fmt_ctx := None, codec_ctx := None, frame := None\<rparr>
   \<and> pts (fst (cleanup_streaming x)) = pts x
   \<and> audio_st (fst (cleanup_streaming x)) = audio_st x
   \<and> (connected x \<longrightarrow>
        (\<exists>f. fmt_ctx x = Some f \<and> snd (cleanup_streaming x) = teardown_calls f)
        \<and> (\<forall>r. holds x r + held r (snd (cleanup_streaming x)) = 0))
   \<and> (\<forall>r. holds (fst (cleanup_streaming x)) r = 0)
   \<and> cleanup_streaming (fst (cleanup_streaming x))
       = (fst (cleanup_streaming x), [Avformat_network_deinit])
   \<and> (fmt_ctx x = None \<and> codec_ctx x = None \<and> frame x = None \<longrightarrow>
        cleanup_streaming x = (x, [Avformat_network_deinit]))
   \<and> fst (rtspstreamer_tilde_free y)
       = y\<lparr>fmt_ctx := map_option (\<lambda>f. if \<not> nofile f then f\<lparr>pb_open := False\<rparr> else f) (fmt_ctx y),
            codec_ctx := None, frame := None\<rparr>
   \<and> pts (fst (rtspstreamer_tilde_free y)) = pts y
   \<and> (fmt_ctx (fst (rtspstreamer_tilde_free y)) = None) = (fmt_ctx y = None)
   \<and> (connected y \<longrightarrow>
        Av_write_trailer \<in> set (snd (rtspstreamer_tilde_free y))
        \<and> (\<forall>r. holds y r + held r (snd (rtspstreamer_tilde_free y)) = 0))
   \<and> (fmt_ctx y = None \<and> codec_ctx y = None \<and> frame y = None \<longrightarrow>
        rtspstreamer_tilde_free y = (y, [Avformat_network_deinit]))"
proof -
  let ?x' = "x\<lparr>fmt_ctx := None, codec_ctx := None, frame := None\<rparr>"
  have st: "fst (cleanup_streaming x) = ?x'" by (rule cleanup_streaming_state)
  have conn: "(\<exists>f. fmt_ctx x = Some f \<and> snd (cleanup_streaming x) = teardown_calls f)
        \<and> (\<forall>r. holds x r + held r (snd (cleanup_streaming x)) = 0)" if c: "connected x"
  proof -
    from c obtain f where f: "fmt_ctx x = Some f"
      by (auto simp: connected_def split: option.splits)
    from cleanup_streaming_connected [OF c f] teardown_calls_held [OF c f] f
    show ?thesis by simp
  qed
  have none: "holds ?x' r = 0" for r
    by (cases r) (simp_all add: holds_def)
  have idle: "cleanup_streaming z = (z, [Avformat_network_deinit])"
    if "fmt_ctx z = None \<and> codec_ctx z = None \<and> frame z = None" for z
    using that by (simp add: cleanup_streaming_def)
  have again: "cleanup_streaming ?x' = (?x', [Avformat_network_deinit])"
    by (rule idle) simp
  have rtsp: "Av_write_trailer \<in> set (snd (rtspstreamer_tilde_free y))
        \<and> (\<forall>r. holds y r + held r (snd (rtspstreamer_tilde_free y)) = 0)" if c: "connected y"
  proof -
    from c obtain f where f: "fmt_ctx y = Some f"
      by (auto simp: connected_def split: option.splits)
    have "holds y r + held r (snd (rtspstreamer_tilde_free y)) = 0" for r
      using c f by (cases r) (auto simp: rtsp_free_connected [OF c f] connected_def holds_def held_def)
    then show ?thesis by (simp add: rtsp_free_connected [OF c f])
  qed
  have rtsp_idle: "fmt_ctx y = None \<and> codec_ctx y = None \<and> frame y = None \<longrightarrow>
        rtspstreamer_tilde_free y = (y, [Avformat_network_deinit])"
    by (simp add: rtspstreamer_tilde_free_def)
  from conn none again idle [of x] rtsp rtsp_idle show ?thesis
    by (simp add: st rtsp_free_state)
qed

subsection \<open>Instances\<close>

lemma fresh_not_streaming: "\<not> streaming_active (fst (rtmpstreamer_tilde_new None))"
  by (simp add: rtmpstreamer_tilde_new_def)

lemma connected_a: "streaming_active streaming_a \<and> connected streaming_a \<and> connected session_a"
  by (simp add: streaming_a_eq session_a_eq connected_def)

lemma exact_rounding:
  "mono (\<lambda>v::real. v) \<and> (\<lambda>v::real. v) 32767 = 32767 \<and> (\<lambda>v::real. v) (- 32767) = - 32767"
  by (simp add: mono_def)

theorem idle_block_is_noop_witness:
  "\<not> streaming_active (fst (rtmpstreamer_tilde_new None))
   \<and> rtmpstreamer_tilde_perform (fst (rtmpstreamer_tilde_new None)) [Fin (1 / 2), Fin 3] quiet
       = Inr (fst (rtmpstreamer_tilde_new None), [])
   \<and> fst (rtspstreamer_tilde_new ''rtsp://a/live'' all_ok) = Some session_a
   \<and> connected session_a"
proof -
  have new: "rtspstreamer_tilde_new ''rtsp://a/live'' all_ok
               = (Some session_a, snd (rtspstreamer_tilde_new ''rtsp://a/live'' all_ok))"
    by (simp add: rtspstreamer_tilde_new_def session_a_def rtsp_connect_def all_ok_def Let_def)
  from idle_block_is_noop [of "fst (rtmpstreamer_tilde_new None)" "[Fin (1 / 2), Fin 3]" quiet
      "''rtsp://a/live''" all_ok]
  show ?thesis using fresh_not_streaming new by (metis fst_conv)
qed

lemma perform_session_a:
  "rtspstreamer_tilde_perform (\<lambda>v. v) session_a [Fin (1 / 2), Fin 3] quiet
     = Inr (session_a\<lparr>frame := Some \<lparr>data = [16383, 32767, 0, 0], nb_samples = 2, frame_pts = 0\<rparr>,
                     pts := 2\<rparr>,
            [Avcodec_send_frame 0 2 True, Avcodec_receive_packet Recv_EAGAIN])"
  by (simp add: session_a_eq quiet_def rtspstreamer_tilde_perform_def prepare_frame_def
      rtsp_convert_def trunc_def clamp_sample_def encode_dispatch_def Let_def)

lemma perform_streaming_a:
  "rtmpstreamer_tilde_perform streaming_a [Fin (1 / 2), Fin 3] quiet
     = Inr (played_a, [Avcodec_send_frame 0 2 True, Avcodec_receive_packet Recv_EAGAIN])"
  by (simp add: played_a_def streaming_a_eq quiet_def rtmpstreamer_tilde_perform_def
      prepare_frame_def rtmp_convert_def clamp_sample_def encode_dispatch_def Let_def)

lemma played_a_eq:
  "played_a =
     \<lparr>url = Some ''rtmp://a/live'', fmt_ctx = Some \<lparr>nofile = False, pb_open = True\<rparr>,
      audio_st = Some \<lparr>index = 0\<rparr>, codec_ctx = Some \<lparr>frame_size = 4\<rparr>,
      frame = Some \<lparr>data = [Fin (1 / 2), Fin 1, Fin 0, Fin 0], nb_samples = 2, frame_pts = 0\<rparr>,
      pts = 2, streaming_active = True\<rparr>"
  by (simp add: played_a_def streaming_a_eq)

lemma streaming_b_eq:
  "streaming_b =
     \<lparr>url = Some ''rtmp://b/live'', fmt_ctx = Some \<lparr>nofile = False, pb_open = True\<rparr>,
      audio_st = Some \<lparr>index = 0\<rparr>, codec_ctx = Some \<lparr>frame_size = 4\<rparr>,
      frame = Some \<lparr>data = [Fin 0, Fin 0, Fin 0, Fin 0], nb_samples = 4, frame_pts = 0\<rparr>,
      pts = 2, streaming_active = True\<rparr>"
  by (simp add: streaming_b_def played_a_eq rtmpstreamer_tilde_symbol_def cleanup_streaming_def
      initialize_streaming_def all_ok_def s_name_def Let_def new_frame_def with_buffer_def
      frame_capacity_def replicate_4)

theorem frame_assembler_unchecked_witness:
  "(\<exists>x' fr' es. rtmpstreamer_tilde_perform streaming_a [Fin (1 / 2), Fin 3] quiet = Inr (x', es)
       \<and> frame x' = Some fr' \<and> data fr' = [Fin (1 / 2), Fin 1, Fin 0, Fin 0] \<and> nb_samples fr' = 2)
   \<and> rtmpstreamer_tilde_perform streaming_a [Fin (1 / 2), Fin 3, Fin 0, Fin 0, Fin 0] quiet
       = Inl Out_of_bounds
   \<and> rtspstreamer_tilde_perform (\<lambda>v. v) session_a [Fin (1 / 2), Fin 3] quiet
       = Inr (session_a\<lparr>frame := Some \<lparr>data = [16383, 32767, 0, 0], nb_samples = 2, frame_pts = 0\<rparr>,
                       pts := 2\<rparr>,
              [Avcodec_send_frame 0 2 True, Avcodec_receive_packet Recv_EAGAIN])
   \<and> rtspstreamer_tilde_perform (\<lambda>v. v) session_a [Fin (1 / 2), Fin 3, Fin 0, Fin 0, Fin 0] quiet
       = Inl Out_of_bounds"
  using frame_assembler_unchecked [of "\<lambda>v. v" streaming_a
      "\<lparr>data = [Fin 0, Fin 0, Fin 0, Fin 0], nb_samples = 4, frame_pts = 0\<rparr>" session_a
      "\<lparr>data = [0, 0, 0, 0], nb_samples = 4, frame_pts = 0\<rparr>" "[Fin (1 / 2), Fin 3]" quiet]
    frame_assembler_unchecked [of "\<lambda>v. v" streaming_a
      "\<lparr>data = [Fin 0, Fin 0, Fin 0, Fin 0], nb_samples = 4, frame_pts = 0\<rparr>" session_a
      "\<lparr>data = [0, 0, 0, 0], nb_samples = 4, frame_pts = 0\<rparr>"
      "[Fin (1 / 2), Fin 3, Fin 0, Fin 0, Fin 0]" quiet]
    connected_a perform_session_a
  by (simp add: streaming_a_eq session_a_eq mono_def clamp_sample_def)

text \<open>
  Claim C2 as stated fails for the session variant: its symbol method, run on a
  streaming object, writes no trailer and releases nothing; the object keeps all its
  handles and only its URL field changes.
\<close>

theorem session_symbol_no_teardown:
  "connected session_a
   \<and> rtspstreamer_tilde_symbol session_a (Some ''rtsp://b/live'')
       = (session_a\<lparr>url := Some ''rtsp://b/live''\<rparr>,
          [Pd_error ''Changing URL at runtime is not supported''])
   \<and> Av_write_trailer \<notin> set (snd (rtspstreamer_tilde_symbol session_a (Some ''rtsp://b/live'')))
   \<and> Avcodec_free_context \<notin> set (snd (rtspstreamer_tilde_symbol session_a (Some ''rtsp://b/live'')))
   \<and> holds (fst (rtspstreamer_tilde_symbol session_a (Some ''rtsp://b/live''))) Format_context = 1
   \<and> holds (fst (rtspstreamer_tilde_symbol session_a (Some ''rtsp://b/live''))) Transport = 1
   \<and> holds (fst (rtspstreamer_tilde_symbol session_a (Some ''rtsp://b/live''))) Codec_context = 1
   \<and> holds (fst (rtspstreamer_tilde_symbol session_a (Some ''rtsp://b/live''))) Frame_handle = 1"
  by (simp add: rtspstreamer_tilde_symbol_def session_a_eq connected_def holds_def)

theorem reconfiguration_teardown_first_witness:
  "streaming_active streaming_a \<and> connected streaming_a
   \<and> takeWhile (\<lambda>e. acquires e = None)
        (snd (rtmpstreamer_tilde_symbol streaming_a (Some ''rtmp://b/live'') all_ok))
      = [Av_write_trailer, Avio_closep, Avformat_free_context, Avcodec_free_context, Av_frame_free,
         Avformat_network_deinit, Post ''[rtmpstreamer~] Attempting to stream to rtmp://b/live'',
         Avformat_network_init]
   \<and> (\<forall>k r. holds streaming_a r
          + held r (take k (snd (rtmpstreamer_tilde_symbol streaming_a (Some ''rtmp://b/live'') all_ok)))
          \<le> 1)"
proof -
  have tw: "takeWhile (\<lambda>e. acquires e = None)
        (snd (rtmpstreamer_tilde_symbol streaming_a (Some ''rtmp://b/live'') all_ok))
      = [Av_write_trailer, Avio_closep, Avformat_free_context, Avcodec_free_context, Av_frame_free,
         Avformat_network_deinit, Post ''[rtmpstreamer~] Attempting to stream to rtmp://b/live'',
         Avformat_network_init]"
    by (simp add: streaming_a_eq rtmpstreamer_tilde_symbol_def cleanup_streaming_def
        initialize_streaming_def all_ok_def s_name_def Let_def)
  from reconfiguration_teardown_first [where x = streaming_a and s = "Some ''rtmp://b/live''"
      and env = all_ok
      and x' = "fst (rtmpstreamer_tilde_symbol streaming_a (Some ''rtmp://b/live'') all_ok)"
      and es = "snd (rtmpstreamer_tilde_symbol streaming_a (Some ''rtmp://b/live'') all_ok)"]
  show ?thesis using connected_a tw by simp
qed

theorem block_errors_keep_streaming_witness:
  "streaming_active streaming_a
   \<and> (\<exists>x'. rtmpstreamer_tilde_perform streaming_a [Fin (1 / 2), Fin 3] write_fails =
        Inr (x', [Avcodec_send_frame 0 2 True,
                  Avcodec_receive_packet Recv_packet, Av_interleaved_write_frame 0 True, Av_packet_unref,
                  Avcodec_receive_packet Recv_packet, Av_interleaved_write_frame 0 False, Av_packet_unref,
                  Pd_error ''[rtmpstreamer~] Error while writing audio frame''])
        \<and> streaming_active x' \<and> fmt_ctx x' = fmt_ctx streaming_a \<and> codec_ctx x' = codec_ctx streaming_a)
   \<and> (\<exists>y'. rtspstreamer_tilde_perform (\<lambda>v. v) session_a [Fin (1 / 2), Fin 3]
              (write_fails\<lparr>send_ok := False\<rparr>) =
        Inr (y', [Avcodec_send_frame 0 2 False, Pd_error ''Error sending frame to codec''])
        \<and> fmt_ctx y' = fmt_ctx session_a \<and> codec_ctx y' = codec_ctx session_a)"
proof -
  let ?es = "[Avcodec_send_frame 0 2 True,
                  Avcodec_receive_packet Recv_packet, Av_interleaved_write_frame 0 True, Av_packet_unref,
                  Avcodec_receive_packet Recv_packet, Av_interleaved_write_frame 0 False, Av_packet_unref,
                  Pd_error ''[rtmpstreamer~] Error while writing audio frame'']"
  let ?y = "session_a\<lparr>frame := Some \<lparr>data = [16383, 32767, 0, 0], nb_samples = 2, frame_pts = 0\<rparr>,
                      pts := 2\<rparr>"
  let ?es' = "[Avcodec_send_frame 0 2 False, Pd_error ''Error sending frame to codec'']"
  have a: "rtmpstreamer_tilde_perform streaming_a [Fin (1 / 2), Fin 3] write_fails = Inr (played_a, ?es)"
    by (simp add: played_a_def streaming_a_eq write_fails_def rtmpstreamer_tilde_perform_def
        prepare_frame_def rtmp_convert_def clamp_sample_def encode_dispatch_def Let_def)
  have b: "rtspstreamer_tilde_perform (\<lambda>v. v) session_a [Fin (1 / 2), Fin 3]
             (write_fails\<lparr>send_ok := False\<rparr>) = Inr (?y, ?es')"
    by (simp add: session_a_eq write_fails_def rtspstreamer_tilde_perform_def prepare_frame_def
        rtsp_convert_def trunc_def clamp_sample_def encode_dispatch_def Let_def)
  from block_errors_keep_streaming [where x = streaming_a and inp = "[Fin (1 / 2), Fin 3]"
      and env = write_fails and x' = played_a and es = ?es and rnd = "\<lambda>v. v" and y = session_a
      and inp' = "[Fin (1 / 2), Fin 3]" and env' = "write_fails\<lparr>send_ok := False\<rparr>" and y' = ?y
      and es' = ?es']
  show ?thesis using a b connected_a by (simp add: played_a_eq)
qed



theorem rtsp_sample_range_witness:
  "mono (\<lambda>v::real. v) \<and> connected session_a
   \<and> rtspstreamer_tilde_perform (\<lambda>v. v) session_a [MInf, Fin (- 1), Fin (1 / 2)] quiet
       = Inr (session_a\<lparr>frame := Some \<lparr>data = [- 32767, - 32767, 16383, 0], nb_samples = 3,
                                        frame_pts = 0\<rparr>,
                       pts := 3\<rparr>,
              [Avcodec_send_frame 0 3 True, Avcodec_receive_packet Recv_EAGAIN])
   \<and> sint (- 32767 :: 16 word) = - 32767 \<and> sint (16383 :: 16 word) = 16383"
proof -
  let ?inp = "[MInf, Fin (- 1), Fin (1 / 2)]"
  let ?es = "[Avcodec_send_frame 0 3 True, Avcodec_receive_packet Recv_EAGAIN]"
  let ?y = "session_a\<lparr>frame := Some \<lparr>data = [- 32767, - 32767, 16383, 0], nb_samples = 3,
                                        frame_pts = 0\<rparr>,
                       pts := 3\<rparr>"
  have b: "rtspstreamer_tilde_perform (\<lambda>v. v) session_a ?inp quiet = Inr (?y, ?es)"
    by (simp add: session_a_eq quiet_def rtspstreamer_tilde_perform_def prepare_frame_def
        rtsp_convert_def trunc_def clamp_sample_def encode_dispatch_def Let_def)
  from rtsp_sample_range [where rnd = "\<lambda>v. v" and y = session_a and inp = ?inp and env = quiet
      and y' = ?y and es = ?es]
  show ?thesis using b connected_a exact_rounding by simp
qed

text \<open>
  Claim C5 as stated fails: after a block of two samples, a change of URL connects
  again and streams, with the clock still at 2, and the next frame is stamped 2.
\<close>

theorem reconnect_keeps_clock:
  "rtmpstreamer_tilde_perform streaming_a [Fin (1 / 2), Fin 3] quiet
     = Inr (played_a, [Avcodec_send_frame 0 2 True, Avcodec_receive_packet Recv_EAGAIN])
   \<and> fst (rtmpstreamer_tilde_symbol played_a (Some ''rtmp://b/live'') all_ok) = streaming_b
   \<and> streaming_active streaming_b \<and> pts streaming_b = 2 \<and> pts streaming_b \<noteq> 0
   \<and> rtmpstreamer_tilde_perform streaming_b [Fin (1 / 4)] quiet
       = Inr (streaming_b\<lparr>frame := Some \<lparr>data = [Fin (1 / 4), Fin 0, Fin 0, Fin 0], nb_samples = 1,
                                          frame_pts = 2\<rparr>,
                          pts := 3\<rparr>,
              [Avcodec_send_frame 2 1 True, Avcodec_receive_packet Recv_EAGAIN])"
  using perform_streaming_a
  by (simp add: streaming_b_def [symmetric])
     (simp add: streaming_b_eq quiet_def rtmpstreamer_tilde_perform_def
      prepare_frame_def rtmp_convert_def clamp_sample_def encode_dispatch_def Let_def)

theorem clock_runs_from_creation_witness:
  "streaming_active played_a
   \<and> rtmp_blocks played_a [([Fin (1 / 4)], quiet), ([Fin 0, Fin 0, Fin 0], quiet)]
       = Inr (played_a\<lparr>frame := Some \<lparr>data = [Fin 0, Fin 0, Fin 0, Fin 0], nb_samples = 3,
                                       frame_pts = 3\<rparr>,
                       pts := 6\<rparr>,
              [Avcodec_send_frame 2 1 True, Avcodec_receive_packet Recv_EAGAIN,
               Avcodec_send_frame 3 3 True, Avcodec_receive_packet Recv_EAGAIN])
   \<and> pts (fst (rtmpstreamer_tilde_symbol played_a (Some ''rtmp://b/live'') all_ok)) = 2
   \<and> rtsp_blocks (\<lambda>v. v) session_a [([Fin (1 / 4)], quiet), ([Fin 0, Fin 0, Fin 0], quiet)]
       = Inr (session_a\<lparr>frame := Some \<lparr>data = [0, 0, 0, 0], nb_samples = 3, frame_pts = 1\<rparr>,
                       pts := 4\<rparr>,
              [Avcodec_send_frame 0 1 True, Avcodec_receive_packet Recv_EAGAIN,
               Avcodec_send_frame 1 3 True, Avcodec_receive_packet Recv_EAGAIN])"
proof -
  let ?bs = "[([Fin (1 / 4)], quiet), ([Fin 0, Fin 0, Fin 0], quiet)]"
  let ?x = "played_a\<lparr>frame := Some \<lparr>data = [Fin 0, Fin 0, Fin 0, Fin 0], nb_samples = 3,
                                       frame_pts = 3\<rparr>,
                       pts := 6\<rparr>"
  let ?es = "[Avcodec_send_frame 2 1 True, Avcodec_receive_packet Recv_EAGAIN,
               Avcodec_send_frame 3 3 True, Avcodec_receive_packet Recv_EAGAIN]"
  let ?y = "session_a\<lparr>frame := Some \<lparr>data = [0, 0, 0, 0], nb_samples = 3, frame_pts = 1\<rparr>,
                       pts := 4\<rparr>"
  let ?es' = "[Avcodec_send_frame 0 1 True, Avcodec_receive_packet Recv_EAGAIN,
               Avcodec_send_frame 1 3 True, Avcodec_receive_packet Recv_EAGAIN]"
  have run: "rtmp_blocks played_a ?bs = Inr (?x, ?es)"
    by (simp add: played_a_eq quiet_def rtmpstreamer_tilde_perform_def
      prepare_frame_def rtmp_convert_def clamp_sample_def encode_dispatch_def Let_def)
  have run': "rtsp_blocks (\<lambda>v. v) session_a ?bs = Inr (?y, ?es')"
    by (simp add: session_a_eq quiet_def rtspstreamer_tilde_perform_def prepare_frame_def
        rtsp_convert_def trunc_def clamp_sample_def encode_dispatch_def Let_def)
  have act: "streaming_active played_a" by (simp add: played_a_eq)
  from clock_runs_from_creation [where x = played_a and bs = ?bs and x' = ?x and es = ?es
      and z = played_a and s = "Some ''rtmp://b/live''" and env = all_ok
      and rnd = "\<lambda>v. v" and y = session_a and bs' = ?bs and y' = ?y and es' = ?es']
  show ?thesis using run run' act by (simp add: played_a_eq)
qed

text \<open>
  Claim C7 as stated fails. The teardown of an object whose clock is 2 leaves the clock
  at 2, and leaves \<open>audio_st\<close> pointing to the stream of the output context it has
  released. The destructor of the session variant leaves \<open>fmt_ctx\<close> pointing to the
  released context, so that a second run on the object it left writes the trailer and
  releases the context again.
\<close>

theorem teardown_keeps_clock:
  "pts (fst (cleanup_streaming played_a)) = 2
   \<and> pts (fst (cleanup_streaming played_a)) \<noteq> 0
   \<and> fmt_ctx (fst (cleanup_streaming played_a)) = None
   \<and> audio_st (fst (cleanup_streaming played_a)) = Some \<lparr>index = 0\<rparr>
   \<and> rtspstreamer_tilde_free session_a
       = (session_a\<lparr>fmt_ctx := Some \<lparr>nofile = False, pb_open = False\<rparr>, codec_ctx := None,
                    frame := None\<rparr>,
          [Av_write_trailer, Avio_closep, Avformat_free_context, Av_channel_layout_uninit,
           Avcodec_free_context, Av_channel_layout_uninit, Av_frame_free, Avformat_network_deinit])
   \<and> fmt_ctx (fst (rtspstreamer_tilde_free session_a)) \<noteq> None
   \<and> rtspstreamer_tilde_free (fst (rtspstreamer_tilde_free session_a))
       = (session_a\<lparr>fmt_ctx := Some \<lparr>nofile = False, pb_open = False\<rparr>, codec_ctx := None,
                    frame := None\<rparr>,
          [Av_write_trailer, Avio_closep, Avformat_free_context, Avformat_network_deinit])
   \<and> held Format_context
        (snd (rtspstreamer_tilde_free session_a)
           @ snd (rtspstreamer_tilde_free (fst (rtspstreamer_tilde_free session_a)))) = - 2"
  by (simp add: cleanup_streaming_state played_a_eq session_a_eq rtspstreamer_tilde_free_def
      held_def Let_def)

theorem teardown_releases_keeps_clock_witness:
  "connected played_a \<and> connected session_a
   \<and> cleanup_streaming played_a
       = (played_a\<lparr>fmt_ctx := None, codec_ctx := None, frame := None\<rparr>,
          [Av_write_trailer, Avio_closep, Avformat_free_context, Avcodec_free_context, Av_frame_free,
           Avformat_network_deinit])
   \<and> cleanup_streaming (played_a\<lparr>fmt_ctx := None, codec_ctx := None, frame := None\<rparr>)
       = (played_a\<lparr>fmt_ctx := None, codec_ctx := None, frame := None\<rparr>, [Avformat_network_deinit])
   \<and> held Codec_context (snd (rtspstreamer_tilde_free session_a)) = - 1"
  using teardown_releases_keeps_clock [of played_a session_a]
    teardown_releases_keeps_clock [of "played_a\<lparr>fmt_ctx := None, codec_ctx := None, frame := None\<rparr>" session_a]
  by (simp add: played_a_eq session_a_eq connected_def holds_def teardown_calls_def prod_eq_iff
      rtspstreamer_tilde_free_def held_def Let_def)

text \<open>
  Claim C3 on a concrete run: the header cannot be written. Both connect sequences
  return their error with no releasing call made; the push object keeps the output
  context, the open transport and the codec context, with the streaming flag off, so
  that its destructor releases nothing either.
\<close>

theorem failed_connect_keeps_handles:
  "fst (initialize_streaming (fst (rtmpstreamer_tilde_new None)\<lparr>url := Some ''rtmp://a/live''\<rparr>)
          (all_ok\<lparr>write_header_ok := False\<rparr>)) = - 1
   \<and> snd (rtmpstreamer_tilde_symbol (fst (rtmpstreamer_tilde_new None)) (Some ''rtmp://a/live'')
            (all_ok\<lparr>write_header_ok := False\<rparr>))
      = [Post ''[rtmpstreamer~] Attempting to stream to rtmp://a/live'',
         Avformat_network_init, Avformat_alloc_output_context2 True, Avcodec_find_encoder True,
         Avformat_new_stream True, Avcodec_alloc_context3 True, Av_channel_layout_copy True,
         Avcodec_open2 True, Avcodec_parameters_from_context True, Avio_open True,
         Av_dict_set, Av_dict_set, Avformat_write_header False,
         Pd_error ''[rtmpstreamer~] Error occurred when opening output URL'', Av_dict_free,
         Pd_error (''[rtmpstreamer~] Failed to initialize streaming to '' @ quoted ''rtmp://a/live'')]
   \<and> fst (rtmpstreamer_tilde_symbol (fst (rtmpstreamer_tilde_new None)) (Some ''rtmp://a/live'')
            (all_ok\<lparr>write_header_ok := False\<rparr>))
      = \<lparr>url = Some ''rtmp://a/live'', fmt_ctx = Some \<lparr>nofile = False, pb_open = True\<rparr>,
         audio_st = Some \<lparr>index = 0\<rparr>, codec_ctx = Some \<lparr>frame_size = 4\<rparr>,
         frame = None, pts = 0, streaming_active = False\<rparr>
   \<and> snd (rtmpstreamer_tilde_free
            (fst (rtmpstreamer_tilde_symbol (fst (rtmpstreamer_tilde_new None))
                    (Some ''rtmp://a/live'') (all_ok\<lparr>write_header_ok := False\<rparr>)))) = []
   \<and> rtspstreamer_tilde_new ''rtsp://a/live'' (all_ok\<lparr>write_header_ok := False\<rparr>)
      = (None,
         [Avformat_network_init, Avformat_alloc_output_context2 True, Avcodec_find_encoder True,
          Avformat_new_stream True, Avcodec_alloc_context3 True, Av_channel_layout_copy True,
          Avcodec_parameters_from_context True, Avio_open True, Av_dict_set,
          Avformat_write_header False, Pd_error ''Error occurred when opening output URL'',
          Av_dict_free])"
  by (simp add: rtmpstreamer_tilde_symbol_def rtmpstreamer_tilde_new_def rtspstreamer_tilde_new_def
      rtmpstreamer_tilde_free_def initialize_streaming_def rtsp_connect_def all_ok_def s_name_def
      Let_def)

text \<open>
  Claim C9 on a concrete run: a URL that \<open>is_valid_rtmp_url\<close> rejects is refused
  at creation, but the symbol method, which tests only for the empty string, connects
  to it.
\<close>

theorem symbol_skips_url_validation:
  "\<not> is_valid_rtmp_url ''http://example.com/live''
   \<and> rtmpstreamer_tilde_new (Some ''http://example.com/live'')
       = (fst (rtmpstreamer_tilde_new None),
          [Post ''[rtmpstreamer~] Invalid or no URL provided at creation. Non-streaming mode.''])
   \<and> streaming_active (fst (rtmpstreamer_tilde_symbol (fst (rtmpstreamer_tilde_new None))
                               (Some ''http://example.com/live'') all_ok))
   \<and> Avio_open True \<in> set (snd (rtmpstreamer_tilde_symbol (fst (rtmpstreamer_tilde_new None))
                               (Some ''http://example.com/live'') all_ok))
   \<and> snd (rtmpstreamer_tilde_symbol (fst (rtmpstreamer_tilde_new None)) (Some []) all_ok)
       = [Post ''[rtmpstreamer~] Invalid or empty URL. Non-streaming mode.'']"
  by (simp add: is_valid_rtmp_url_def rtmpstreamer_tilde_symbol_def rtmpstreamer_tilde_new_def
      initialize_streaming_def all_ok_def s_name_def Let_def)

end
